theory Spec2Isabelle
  imports Complex_Main "HOL-Library.Product_Lexorder" "HOL-Library.Multiset" "HOL-Library.Sublist"
begin

section \<open>Token balances (src/src/token\_fetcher.py)\<close>

text \<open>
  Amounts that the Python code holds as floats (token balances, SOL amounts) are modelled as
  exact rationals; lamport counts are Python integers and are modelled as \<open>int\<close>.
  An optional JSON value (a missing key or \<open>null\<close>) is an \<open>option\<close>.
\<close>

record token_info =
  ti_mint :: string
  ti_decimals :: nat
  ti_symbol :: string
  ti_icon :: string

text \<open>
  \<open>KNOWN_TOKENS\<close>: a dictionary in insertion order. The icons are emoji in the source; they
  are named here by their code points.
\<close>

definition KNOWN_TOKENS :: "(string \<times> token_info) list" where
  "KNOWN_TOKENS =
    [(''USDC'', \<lparr>ti_mint = ''EPjFWdd5AufqSSqeM2qN1xzybapC8G4wEGGkZwyTDt1v'', ti_decimals = 6,
                 ti_symbol = ''USDC'', ti_icon = ''U+1F535''\<rparr>),
     (''USDC_DEVNET'', \<lparr>ti_mint = ''Gh9ZwEmdLJ8DscKNTkTqPbNwLNNBjuSzaG9Vp2KGtKJr'', ti_decimals = 6,
                 ti_symbol = ''USDC'', ti_icon = ''U+1F535''\<rparr>),
     (''USDT'', \<lparr>ti_mint = ''Es9vMFrzaCERmJfrF4H2FYD4KCoNkY11McCe8BenwNYB'', ti_decimals = 6,
                 ti_symbol = ''USDT'', ti_icon = ''U+1F7E2''\<rparr>),
     (''RAY'', \<lparr>ti_mint = ''4k3Dyjzvzp8eMZWUXbBCjEvwSkkk59S5iCNLY3QrkX6R'', ti_decimals = 6,
                 ti_symbol = ''RAY'', ti_icon = ''U+1F7E1''\<rparr>),
     (''BONK'', \<lparr>ti_mint = ''DezXAZ8z7PnrnRJjz3wXBoRgixCa6xjnB7YaB1pPB263'', ti_decimals = 5,
                 ti_symbol = ''BONK'', ti_icon = ''U+1F436''\<rparr>),
     (''JUP'', \<lparr>ti_mint = ''JUPyiwrYJFskUPiHa7hkeR8VUtAeFoSYbKedZNsDvCN'', ti_decimals = 6,
                 ti_symbol = ''JUP'', ti_icon = ''U+1FA90''\<rparr>)]"

text \<open>
  One element of the \<open>getTokenAccountsByOwner\<close> result. \<open>Token_Account\<close> is an account whose
  \<open>account.data.parsed.info\<close> is a JSON object: its \<open>mint\<close> (absent: \<open>None\<close>), its
  \<open>tokenAmount.uiAmount\<close> (absent or \<open>null\<close>: \<open>None\<close>) and its \<open>tokenAmount.decimals\<close>.
  \<open>Unparsed_Account\<close> is an element on which the chain of \<open>.get\<close> calls raises (a level
  that is not an object); \<open>parse_token_balance\<close> catches the exception and returns \<open>None\<close>.
\<close>

datatype token_account =
    Token_Account (acct_mint: "string option") (acct_ui_amount: "rat option") (acct_decimals: nat)
  | Unparsed_Account

record token_balance =
  mint :: "string option"
  symbol :: string
  icon :: string
  balance :: rat
  decimals :: nat
  is_known :: bool

text \<open>The loop over \<open>KNOWN_TOKENS.items()\<close> that stops at the first entry with the mint.\<close>

fun find_token_info :: "string option \<Rightarrow> (string \<times> token_info) list \<Rightarrow> token_info option" where
  "find_token_info m [] = None"
| "find_token_info m ((name, d) # rest) =
     (if Some (ti_mint d) = m then Some d else find_token_info m rest)"

fun parse_token_balance :: "token_account \<Rightarrow> token_balance option" where
  "parse_token_balance Unparsed_Account = None"
| "parse_token_balance (Token_Account m ui_amount dec) =
     (let token_info = find_token_info m KNOWN_TOKENS in
      Some \<lparr>mint = m,
            symbol = (case token_info of Some d \<Rightarrow> ti_symbol d | None \<Rightarrow> ''Unknown''),
            icon = (case token_info of Some d \<Rightarrow> ti_icon d | None \<Rightarrow> ''U+1FA99''),
            balance = (case ui_amount of Some a \<Rightarrow> a | None \<Rightarrow> 0),
            decimals = dec,
            is_known = (token_info \<noteq> None)\<rparr>)"

text \<open>The loop of \<open>get_all_token_balances\<close> that appends every parsed account.\<close>

fun parse_accounts :: "token_account list \<Rightarrow> token_balance list" where
  "parse_accounts [] = []"
| "parse_accounts (account # accounts) =
     (case parse_token_balance account of
        None \<Rightarrow> parse_accounts accounts
      | Some parsed \<Rightarrow> parsed # parse_accounts accounts)"

text \<open>
  The key of \<open>balances.sort(key=lambda x: (not x["is_known"], -x["balance"]))\<close>; Python tuples
  compare lexicographically, \<open>False < True\<close>, and \<open>list.sort\<close> is stable, as \<open>sort_key\<close> is.
\<close>

definition balance_key :: "token_balance \<Rightarrow> bool \<times> rat" where
  "balance_key x = (\<not> is_known x, - balance x)"

text \<open>
  \<open>get_all_token_balances\<close>, on the list that \<open>get_token_accounts\<close> returned for the wallet
  address (the empty list when the request failed).
\<close>

definition get_all_token_balances :: "token_account list \<Rightarrow> token_balance list" where
  "get_all_token_balances accounts = sort_key balance_key (parse_accounts accounts)"

section \<open>Transaction enrichment (src/new/tui\_wallet.py, \<open>_enrich_transactions\<close>)\<close>

text \<open>
  A raw entry of \<open>getSignaturesForAddress\<close> and the detail record of
  \<open>get_transaction_details\<close>: the account keys of the message, and \<open>preBalances\<close>,
  \<open>postBalances\<close> and \<open>fee\<close> of \<open>meta\<close> (lamports; a missing list is read as \<open>[]\<close>
  and a missing fee as \<open>0\<close> by the \<open>.get\<close> defaults).
\<close>

record raw_tx =
  signature :: string
  slot :: nat
  blockTime :: "int option"
  err :: "string option"

record tx_detail =
  account_keys :: "string list"
  preBalances :: "int list"
  postBalances :: "int list"
  fee :: int

datatype direction = Sent | Received | Other

text \<open>
  An enriched entry is the copy \<open>dict(tx)\<close> of the raw entry with three keys that enrichment may
  add. A key that was never set is \<open>None\<close>: the history panel shows such an entry without
  direction and without amount.
\<close>

record tx_entry = raw_tx +
  direction :: "direction option"
  sol_delta :: "rat option"
  fee_sol :: "rat option"

definition LAMPORTS_PER_SOL :: rat where
  "LAMPORTS_PER_SOL = 1000000000"

text \<open>\<open>account_keys.index(pubkey)\<close>, called only when \<open>pubkey in account_keys\<close>.\<close>

fun index_of :: "'a \<Rightarrow> 'a list \<Rightarrow> nat" where
  "index_of x [] = 0"
| "index_of x (y # ys) = (if x = y then 0 else Suc (index_of x ys))"

definition copy_entry :: "raw_tx \<Rightarrow> tx_entry" where
  "copy_entry tx = raw_tx.extend tx
     (tx_entry.fields None None None)"

text \<open>
  The body of the \<open>try\<close> block when the detail lookup returned a record: the direction and the
  SOL delta of the owner \<open>pubkey\<close>, then the fee.
\<close>

definition apply_detail :: "string \<Rightarrow> tx_detail \<Rightarrow> tx_entry \<Rightarrow> tx_entry" where
  "apply_detail pubkey detail entry =
    (let pre = preBalances detail; post = postBalances detail;
         entry1 =
          (if pubkey \<in> set (account_keys detail) then
             (let idx = index_of pubkey (account_keys detail) in
              if idx < length pre \<and> idx < length post then
                (let delta_lamports = post ! idx - pre ! idx in
                 if idx = 0 \<and> delta_lamports < 0 then
                   (let send_amount = of_int (- (delta_lamports + fee detail)) / LAMPORTS_PER_SOL in
                    entry\<lparr>sol_delta := Some (- send_amount), direction := Some Sent\<rparr>)
                 else if delta_lamports > 0 then
                   (let recv_amount = of_int delta_lamports / LAMPORTS_PER_SOL in
                    entry\<lparr>sol_delta := Some recv_amount, direction := Some Received\<rparr>)
                 else
                   entry\<lparr>sol_delta := Some (of_int delta_lamports / LAMPORTS_PER_SOL),
                         direction := Some Other\<rparr>)
              else entry)
           else entry)
     in entry1\<lparr>fee_sol := Some (of_int (fee detail) / LAMPORTS_PER_SOL)\<rparr>)"

text \<open>
  One turn of the loop. The lookup \<open>details\<close> is the network call
  \<open>get_transaction_details\<close>; \<open>None\<close> is a lookup that returned nothing or raised (the
  \<open>except\<close> clause passes), and in both cases the copied entry is appended as it is.
\<close>

definition enrich_entry :: "(string \<Rightarrow> tx_detail option) \<Rightarrow> string \<Rightarrow> raw_tx \<Rightarrow> tx_entry" where
  "enrich_entry details pubkey tx =
    (case details (signature tx) of
       None \<Rightarrow> copy_entry tx
     | Some detail \<Rightarrow> apply_detail pubkey detail (copy_entry tx))"

fun enrich_transactions :: "(string \<Rightarrow> tx_detail option) \<Rightarrow> raw_tx list \<Rightarrow> string \<Rightarrow> tx_entry list" where
  "enrich_transactions details [] pubkey = []"
| "enrich_transactions details (tx # txs) pubkey =
     enrich_entry details pubkey tx # enrich_transactions details txs pubkey"

section \<open>Panels and session state (src/new/tui\_wallet.py)\<close>

text \<open>
  A reactive attribute is a field; its watcher is written into the function that assigns it.
  A watcher runs only when the assigned value differs from the old one. Messages that a
  handler posts are returned beside the new state.
\<close>

datatype panel_message = LoadMore | TokenSelected int | SendRequested

subsection \<open>\<open>LivePortfolioPanel\<close>\<close>

record portfolio_panel =
  tokens :: "token_balance list"
  selected_index :: int
  sol_balance :: rat
  public_key :: string

text \<open>\<open>watch_selected_index\<close> posts \<open>TokenSelected\<close> whenever the index changes.\<close>

definition pf_action_select_prev :: "portfolio_panel \<Rightarrow> portfolio_panel \<times> panel_message list" where
  "pf_action_select_prev p =
    (if selected_index p > 0
     then (p\<lparr>selected_index := selected_index p - 1\<rparr>, [TokenSelected (selected_index p - 1)])
     else (p, []))"

definition pf_action_select_next :: "portfolio_panel \<Rightarrow> portfolio_panel \<times> panel_message list" where
  "pf_action_select_next p =
    (let max_index = int (length (tokens p)) in
     if selected_index p < max_index
     then (p\<lparr>selected_index := selected_index p + 1\<rparr>, [TokenSelected (selected_index p + 1)])
     else (p, []))"

subsection \<open>\<open>TransactionHistoryPanel\<close>\<close>

record history_panel =
  transactions :: "tx_entry list"
  page_size :: int
  tx_selected_index :: int

text \<open>Assigning \<open>transactions\<close>, with \<open>watch_transactions\<close>.\<close>

definition set_transactions :: "tx_entry list \<Rightarrow> history_panel \<Rightarrow> history_panel" where
  "set_transactions txs p =
    (if txs = transactions p then p
     else p\<lparr>transactions := txs,
            page_size := 5,
            tx_selected_index :=
              (if tx_selected_index p \<ge> int (length txs) then max 0 (int (length txs) - 1)
               else tx_selected_index p)\<rparr>)"

definition tx_action_select_prev :: "history_panel \<Rightarrow> history_panel \<times> panel_message list" where
  "tx_action_select_prev p =
    (if tx_selected_index p > 0 then (p\<lparr>tx_selected_index := tx_selected_index p - 1\<rparr>, [])
     else (p, []))"

definition tx_action_select_next :: "history_panel \<Rightarrow> history_panel \<times> panel_message list" where
  "tx_action_select_next p =
    (if tx_selected_index p < max 0 (int (length (transactions p)) - 1) then
       (let p1 = p\<lparr>tx_selected_index := tx_selected_index p + 1\<rparr> in
        if tx_selected_index p1 \<ge> page_size p1 \<and> page_size p1 < int (length (transactions p1))
        then (p1\<lparr>page_size := page_size p1 + 5\<rparr>, [])
        else (p1, []))
     else (p, []))"

text \<open>\<open>on_button_pressed\<close> for the button \<open>btn-load-more\<close>.\<close>

definition tx_on_button_pressed :: "history_panel \<Rightarrow> history_panel \<times> panel_message list" where
  "tx_on_button_pressed p = (p\<lparr>page_size := page_size p + 5\<rparr>, [LoadMore])"

text \<open>
  \<open>refresh_history\<close> shows the button only when \<open>has_more\<close> holds: with a non-empty list that
  is longer than the page size.
\<close>

definition load_more_button_displayed :: "history_panel \<Rightarrow> bool" where
  "load_more_button_displayed p =
    (transactions p \<noteq> [] \<and> int (length (transactions p)) > page_size p)"

subsection \<open>\<open>LiveSendPanel\<close>\<close>

datatype review =
    Review_Hint
  | Review_Line rat string
  | Review_Error string
  | Review_Status string

record send_panel =
  to_address :: string
  amount_input :: string
  wallet_password :: string
  confirming :: bool
  review_box :: review
  confirm_summary :: string
  panel_balance :: rat

subsection \<open>The application\<close>

record device =
  dev_device :: string
  dev_model :: string
  dev_mountpoint :: "string option"
  dev_size :: string

record session =
  current_public_key :: "string option"
  current_balance :: rat
  current_tokens :: "token_balance list"
  did_unmount :: bool
  detected_devices :: "device list"
  selected_device_index :: "nat option"
  last_mount_attempt :: rat
  mount_point :: "string option"
  status_mode :: string
  network_status :: string
  wallet_name :: string
  info_public_key :: string
  info_balance :: rat
  portfolio :: portfolio_panel
  details_selected_token :: "token_balance option"
  details_sol_balance :: rat
  history :: history_panel
  send :: send_panel
  exited :: bool

text \<open>
  The truth value that Python gives an optional string: \<open>None\<close> and the empty string are
  false.
\<close>

fun truthy :: "string option \<Rightarrow> bool" where
  "truthy None = False"
| "truthy (Some s) = (s \<noteq> [])"

definition apply_token_selection :: "int \<Rightarrow> session \<Rightarrow> session" where
  "apply_token_selection index s =
    (if index \<le> 0 then
       s\<lparr>details_selected_token := None, details_sol_balance := current_balance s\<rparr>
     else if current_tokens s = [] then
       s\<lparr>details_selected_token := None\<rparr>
     else
       (let index1 = (if index - 1 \<ge> int (length (current_tokens s)) then 1 else index);
            selected = current_tokens s ! nat (index1 - 1)
        in s\<lparr>details_selected_token := Some selected\<rparr>))"

definition update_network_status :: "bool \<Rightarrow> session \<Rightarrow> session" where
  "update_network_status is_connected s =
    s\<lparr>network_status := (if is_connected then ''Connected'' else ''Disconnected'')\<rparr>"

definition set_mode :: "string \<Rightarrow> session \<Rightarrow> session" where
  "set_mode m s = s\<lparr>status_mode := m\<rparr>"

definition update_status_bar :: "string \<Rightarrow> session \<Rightarrow> session" where
  "update_status_bar label s = s\<lparr>wallet_name := label, status_mode := ''READY''\<rparr>"

definition update_devices :: "device list \<Rightarrow> session \<Rightarrow> session" where
  "update_devices devices s = s\<lparr>detected_devices := devices\<rparr>"

definition update_pubkey :: "string \<Rightarrow> session \<Rightarrow> session" where
  "update_pubkey pubkey s =
    s\<lparr>info_public_key := pubkey, portfolio := (portfolio s)\<lparr>public_key := pubkey\<rparr>\<rparr>"

definition update_balance :: "rat \<Rightarrow> session \<Rightarrow> session" where
  "update_balance b s =
    s\<lparr>info_balance := b,
      portfolio := (portfolio s)\<lparr>sol_balance := b\<rparr>,
      send := (send s)\<lparr>panel_balance := b\<rparr>,
      details_sol_balance := b\<rparr>"

definition update_tokens :: "token_balance list \<Rightarrow> session \<Rightarrow> session" where
  "update_tokens toks s =
    (let s1 = s\<lparr>portfolio := (portfolio s)\<lparr>tokens := toks\<rparr>\<rparr>
     in apply_token_selection (selected_index (portfolio s1)) s1)"

definition update_txs :: "tx_entry list \<Rightarrow> session \<Rightarrow> session" where
  "update_txs txs s = s\<lparr>history := set_transactions txs (history s)\<rparr>"

text \<open>The handler of \<open>TokenSelected\<close>.\<close>

definition on_token_selected :: "int \<Rightarrow> session \<Rightarrow> session" where
  "on_token_selected index s = apply_token_selection index s"

text \<open>Arrow keys on the portfolio panel, with the message they post delivered to the app.\<close>

fun deliver_token_messages :: "panel_message list \<Rightarrow> session \<Rightarrow> session" where
  "deliver_token_messages [] s = s"
| "deliver_token_messages (TokenSelected i # ms) s = deliver_token_messages ms (on_token_selected i s)"
| "deliver_token_messages (m # ms) s = deliver_token_messages ms s"

definition select_next_token :: "session \<Rightarrow> session" where
  "select_next_token s =
    (let (p, ms) = pf_action_select_next (portfolio s)
     in deliver_token_messages ms (s\<lparr>portfolio := p\<rparr>))"

definition select_prev_token :: "session \<Rightarrow> session" where
  "select_prev_token s =
    (let (p, ms) = pf_action_select_prev (portfolio s)
     in deliver_token_messages ms (s\<lparr>portfolio := p\<rparr>))"

subsection \<open>The poll cycle (\<open>_fetch_wallet_data\<close>)\<close>

text \<open>\<open>str.strip()\<close> on the ASCII white space characters.\<close>

definition is_space :: "char \<Rightarrow> bool" where
  "is_space c = (let n = (of_char c :: nat) in (9 \<le> n \<and> n \<le> 13) \<or> (28 \<le> n \<and> n \<le> 32))"

definition strip :: "string \<Rightarrow> string" where
  "strip s = rev (dropWhile is_space (rev (dropWhile is_space s)))"

text \<open>
  What the device, file system and network layers answer during one poll cycle. A network
  call that yields nothing usable is \<open>None\<close>; \<open>pubkey_file\<close> gives the content of
  \<open>wallet/pubkey.txt\<close> under a mount point when the file exists; \<open>usb_mount_device\<close> is the
  result of \<open>mount_device\<close>. The calls \<open>select_device\<close> of the device layer and
  \<open>get_network_info\<close> change no field of the session.
\<close>

record poll_env =
  net_is_connected :: bool
  usb_detect_devices :: "device list"
  time_now :: rat
  usb_mount_device :: "string \<Rightarrow> string option"
  pubkey_file :: "string \<Rightarrow> string option"
  net_get_balance :: "string \<Rightarrow> rat option"
  net_token_accounts :: "string \<Rightarrow> token_account list"
  net_transaction_history :: "string \<Rightarrow> nat \<Rightarrow> raw_tx list"
  net_transaction_details :: "string \<Rightarrow> tx_detail option"

text \<open>From the balance fetch to the end of the cycle.\<close>

definition fetch_balance_stage :: "poll_env \<Rightarrow> string \<Rightarrow> session \<Rightarrow> session" where
  "fetch_balance_stage env pubkey s =
    (case net_get_balance env pubkey of
       None \<Rightarrow> s
     | Some b \<Rightarrow>
        (let s1 = update_balance b (s\<lparr>current_balance := b\<rparr>);
             toks = get_all_token_balances (net_token_accounts env pubkey);
             s2 = update_tokens toks (s1\<lparr>current_tokens := toks\<rparr>);
             txs = net_transaction_history env pubkey 10
         in if txs \<noteq> []
            then update_txs (enrich_transactions (net_transaction_details env) txs pubkey) s2
            else s2))"

text \<open>From the mount-point check to the end of the cycle.\<close>

definition fetch_pubkey_stage :: "poll_env \<Rightarrow> session \<Rightarrow> session" where
  "fetch_pubkey_stage env s =
    (if \<not> truthy (mount_point s) then s
     else
      (case pubkey_file env (the (mount_point s)) of
         None \<Rightarrow> s
       | Some content \<Rightarrow>
          (let pubkey = strip content;
               s1 = update_pubkey pubkey (s\<lparr>current_public_key := Some pubkey\<rparr>)
           in if \<not> net_is_connected env then s1
              else fetch_balance_stage env pubkey s1)))"

text \<open>From the chosen device to the end of the cycle; mount attempts are five seconds apart.\<close>

definition mount_stage :: "poll_env \<Rightarrow> device \<Rightarrow> session \<Rightarrow> session" where
  "mount_stage env dev s =
    (let wallet_label = (if strip (dev_model dev) = [] then ''COLDSTAR'' else strip (dev_model dev));
         s1 =
          (if truthy (dev_mountpoint dev) then s\<lparr>mount_point := dev_mountpoint dev\<rparr>
           else if time_now env - last_mount_attempt s > 5 then
             (let s0 = s\<lparr>last_mount_attempt := time_now env\<rparr>;
                  mp = usb_mount_device env (dev_device dev)
              in if truthy mp then s0\<lparr>mount_point := mp\<rparr> else s0)
           else s)
     in fetch_pubkey_stage env (update_status_bar wallet_label s1))"

definition fetch_wallet_data :: "poll_env \<Rightarrow> session \<Rightarrow> session" where
  "fetch_wallet_data env s =
    (let s1 = update_network_status (net_is_connected env) s;
         devices = usb_detect_devices env;
         s2 = update_devices devices s1
     in if devices = [] then set_mode ''OFFLINE'' s2
        else if length devices = 1 then
          mount_stage env (devices ! 0) (s2\<lparr>selected_device_index := Some 0\<rparr>)
        else
          (case selected_device_index s2 of
             None \<Rightarrow> set_mode ''SELECT USB'' s2
           | Some i \<Rightarrow>
              if i \<ge> length devices then set_mode ''SELECT USB'' s2
              else mount_stage env (devices ! i) s2))"

text \<open>\<open>refresh_data\<close>: the status bar shows the sync, then the worker runs the cycle.\<close>

definition refresh_data :: "poll_env \<Rightarrow> session \<Rightarrow> session" where
  "refresh_data env s = fetch_wallet_data env (set_mode ''SYNCING...'' s)"

subsection \<open>Device selection and unmount\<close>

definition on_device_panel_device_selected :: "poll_env \<Rightarrow> nat \<Rightarrow> session \<Rightarrow> session" where
  "on_device_panel_device_selected env index s =
    refresh_data env (s\<lparr>selected_device_index := Some index\<rparr>)"

text \<open>
  \<open>action_unmount\<close>; \<open>unmount_raises\<close> tells whether \<open>unmount_device\<close> of the device layer
  raised.
\<close>

definition action_unmount :: "bool \<Rightarrow> session \<Rightarrow> session" where
  "action_unmount unmount_raises s =
    (if truthy (mount_point s) then
       (if unmount_raises then s
        else s\<lparr>did_unmount := True, current_public_key := None, current_balance := 0,
               current_tokens := [], exited := True\<rparr>)
     else s)"

subsection \<open>Loading more transactions\<close>

text \<open>
  The handler of \<open>LoadMore\<close>: the cursor and the list handed to the worker, or \<open>None\<close> when
  the handler returns without starting one.
\<close>

definition on_load_more :: "session \<Rightarrow> (string \<times> tx_entry list) option" where
  "on_load_more s =
    (if \<not> truthy (current_public_key s) then None
     else
      (let current_txs = transactions (history s) in
       if current_txs = [] then None
       else Some (signature (last current_txs), current_txs)))"

text \<open>
  \<open>_fetch_more_txs\<close>. The request \<open>getSignaturesForAddress\<close> with \<open>limit\<close> 10 and
  \<open>before\<close> the cursor is \<open>rpc pubkey 10 before_sig\<close>; \<open>None\<close> is a request that raised,
  and a response without \<open>result\<close> is the empty list.
\<close>

definition fetch_more_txs ::
  "(string \<Rightarrow> nat \<Rightarrow> string \<Rightarrow> raw_tx list option) \<Rightarrow> (string \<Rightarrow> tx_detail option) \<Rightarrow>
   string \<Rightarrow> tx_entry list \<Rightarrow> session \<Rightarrow> session" where
  "fetch_more_txs rpc details before_sig existing_txs s =
    (case current_public_key s of
       None \<Rightarrow> s
     | Some pubkey \<Rightarrow>
        (case rpc pubkey 10 before_sig of
           None \<Rightarrow> s
         | Some new_txs \<Rightarrow>
            if new_txs \<noteq> [] then
              (let enriched = enrich_transactions details new_txs pubkey;
                   combined = existing_txs @ enriched
               in update_txs combined s)
            else s))"

text \<open>One \<open>loadMore\<close>: the handler, then the worker it starts.\<close>

definition load_more ::
  "(string \<Rightarrow> nat \<Rightarrow> string \<Rightarrow> raw_tx list option) \<Rightarrow> (string \<Rightarrow> tx_detail option) \<Rightarrow>
   session \<Rightarrow> session" where
  "load_more rpc details s =
    (case on_load_more s of
       None \<Rightarrow> s
     | Some (last_sig, current_txs) \<Rightarrow> fetch_more_txs rpc details last_sig current_txs s)"

text \<open>
  Modelled from the spec: the network layer's \<open>getSignaturesForAddress(pubkey, {limit,
  before})\<close>, which is not part of this repository. The ledger of the address is a list of
  raw entries, newest first; the request answers with at most \<open>limit\<close> entries strictly
  older than the entry whose signature is \<open>before\<close> (an exclusive bound).
\<close>

fun entries_before :: "string \<Rightarrow> raw_tx list \<Rightarrow> raw_tx list" where
  "entries_before c [] = []"
| "entries_before c (t # ts) = (if signature t = c then ts else entries_before c ts)"

definition ledger_rpc :: "raw_tx list \<Rightarrow> string \<Rightarrow> nat \<Rightarrow> string \<Rightarrow> raw_tx list option" where
  "ledger_rpc ledger pubkey limit before = Some (take limit (entries_before before ledger))"

text \<open>The button of the history panel, with the message it posts delivered to the app.\<close>

definition press_load_more ::
  "(string \<Rightarrow> nat \<Rightarrow> string \<Rightarrow> raw_tx list option) \<Rightarrow> (string \<Rightarrow> tx_detail option) \<Rightarrow>
   session \<Rightarrow> session" where
  "press_load_more rpc details s =
    (if load_more_button_displayed (history s) then
       (let (p, ms) = tx_on_button_pressed (history s);
            s1 = s\<lparr>history := p\<rparr>
        in if LoadMore \<in> set ms then load_more rpc details s1 else s1)
     else s)"

subsection \<open>The send flow (\<open>LiveSendPanel\<close>, \<open>on_live_send_panel_send_requested\<close>, \<open>_do_send\<close>)\<close>

text \<open>
  The wallet, transaction and network layers as the send flow calls them. \<open>parse_float\<close> is
  Python's \<open>float\<close> on a string, \<open>None\<close> when it raises \<open>ValueError\<close>; the other calls
  answer \<open>None\<close> when they return nothing.
\<close>

record send_env =
  validate_address :: "string \<Rightarrow> bool"
  parse_float :: "string \<Rightarrow> rat option"
  get_latest_blockhash :: "string option"
  create_transfer_transaction :: "string \<Rightarrow> string \<Rightarrow> rat \<Rightarrow> string \<Rightarrow> string option"
  load_encrypted_container :: "string \<Rightarrow> string \<Rightarrow> string option"
  sign_transaction_secure :: "string \<Rightarrow> string \<Rightarrow> string \<Rightarrow> string option"
  send_transaction :: "string \<Rightarrow> string option"

definition fee_sol_fixed :: rat where
  "fee_sol_fixed = 5 / 1000000"

definition to_short :: "string \<Rightarrow> string" where
  "to_short t = (if length t > 12 then take 6 t @ ''...'' @ drop (length t - 6) t else t)"

definition update_review :: "send_env \<Rightarrow> send_panel \<Rightarrow> send_panel" where
  "update_review env p =
    (let t = strip (to_address p); amount_str = strip (amount_input p) in
     case (if amount_str \<noteq> [] then parse_float env amount_str else Some 0) of
       None \<Rightarrow> p\<lparr>review_box := Review_Error ''Invalid amount''\<rparr>
     | Some amount \<Rightarrow>
         if t \<noteq> [] \<and> amount > 0 then p\<lparr>review_box := Review_Line amount (to_short t)\<rparr>
         else p\<lparr>review_box := Review_Hint\<rparr>)"

text \<open>
  \<open>_show_confirm_step\<close>: the gate from the draft to the confirmation step. The text of the
  summary is not modelled beyond its heading.
\<close>

definition show_confirm_step :: "send_env \<Rightarrow> send_panel \<Rightarrow> send_panel" where
  "show_confirm_step env p =
    (let t = strip (to_address p); amount_str = strip (amount_input p) in
     if t = [] \<or> amount_str = [] then
       p\<lparr>review_box := Review_Error ''Fill in address and amount first''\<rparr>
     else if \<not> validate_address env t then
       p\<lparr>review_box := Review_Error ''Invalid recipient address''\<rparr>
     else
      (case parse_float env amount_str of
         None \<Rightarrow> p\<lparr>review_box := Review_Error ''Invalid amount''\<rparr>
       | Some amount \<Rightarrow>
           if amount \<le> 0 then
             p\<lparr>review_box := Review_Error ''Amount must be greater than 0''\<rparr>
           else if amount + fee_sol_fixed > panel_balance p then
             p\<lparr>review_box := Review_Error ''Insufficient balance (amount + fee)''\<rparr>
           else p\<lparr>confirm_summary := ''Confirm Transaction'', confirming := True\<rparr>))"

definition hide_confirm_step :: "send_panel \<Rightarrow> send_panel" where
  "hide_confirm_step p = p\<lparr>wallet_password := [], confirming := False\<rparr>"

definition clear_form :: "send_panel \<Rightarrow> send_panel" where
  "clear_form p = (hide_confirm_step p)\<lparr>to_address := [], amount_input := [], review_box := Review_Hint\<rparr>"

datatype send_step =
    Fetch_Blockhash
  | Build_Transaction rat
  | Load_Container string
  | Sign_Secure string
  | Broadcast string

text \<open>
  \<open>_do_send\<close>: the calls the worker makes, in order, and the last text of the review box.
  Loading the key container and handing the transaction to the signer are the steps
  \<open>Load_Container\<close> and \<open>Sign_Secure\<close>.
\<close>

definition do_send :: "send_env \<Rightarrow> session \<Rightarrow> string \<Rightarrow> rat \<Rightarrow> string \<Rightarrow> send_step list \<times> review" where
  "do_send env s to_addr amount password =
    (let keypair_path = the (mount_point s) @ ''/wallet/keypair.json'' in
     case get_latest_blockhash env of
       None \<Rightarrow> ([Fetch_Blockhash], Review_Error ''Error: Could not get blockhash'')
     | Some blockhash \<Rightarrow>
        (case create_transfer_transaction env (the (current_public_key s)) to_addr amount blockhash of
           None \<Rightarrow> ([Fetch_Blockhash, Build_Transaction amount],
                     Review_Error ''Error: Could not build transaction'')
         | Some unsigned_tx \<Rightarrow>
            (case load_encrypted_container env keypair_path password of
               None \<Rightarrow> ([Fetch_Blockhash, Build_Transaction amount, Load_Container keypair_path],
                         Review_Error ''Error: Could not load wallet (wrong password?)'')
             | Some encrypted_container \<Rightarrow>
                (case sign_transaction_secure env unsigned_tx encrypted_container password of
                   None \<Rightarrow> ([Fetch_Blockhash, Build_Transaction amount, Load_Container keypair_path,
                              Sign_Secure unsigned_tx],
                             Review_Error ''Error: Signing failed (wrong password?)'')
                 | Some signed_tx \<Rightarrow>
                    ([Fetch_Blockhash, Build_Transaction amount, Load_Container keypair_path,
                      Sign_Secure unsigned_tx, Broadcast signed_tx],
                     (case send_transaction env signed_tx of
                        Some sig \<Rightarrow> Review_Status (''Sent! Sig: '' @ sig)
                      | None \<Rightarrow> Review_Error ''Transaction rejected by network''))))))"

text \<open>
  \<open>on_live_send_panel_send_requested\<close>: the gate from the confirmation step to the worker.
  The result holds the session and the calls of the worker it started (none when a check
  returned early).
\<close>

definition on_send_requested :: "send_env \<Rightarrow> session \<Rightarrow> session \<times> send_step list" where
  "on_send_requested env s =
    (let send_panel = send s;
         to_addr = strip (to_address send_panel);
         amount_str = strip (amount_input send_panel);
         password = wallet_password send_panel
     in
     if password = [] then
       (s\<lparr>send := send_panel\<lparr>confirm_summary := ''Enter your wallet password above''\<rparr>\<rparr>, [])
     else if \<not> validate_address env to_addr then
       (s\<lparr>send := send_panel\<lparr>review_box := Review_Error ''Error: Invalid recipient address''\<rparr>\<rparr>, [])
     else
      (case parse_float env amount_str of
         None \<Rightarrow> (s\<lparr>send := send_panel\<lparr>review_box := Review_Error ''Error: Invalid amount''\<rparr>\<rparr>, [])
       | Some amount \<Rightarrow>
           if amount + fee_sol_fixed > current_balance s then
             (s\<lparr>send := send_panel\<lparr>review_box :=
                 Review_Error ''Error: Insufficient balance (amount + fee)''\<rparr>\<rparr>, [])
           else if \<not> truthy (mount_point s) then
             (s\<lparr>send := send_panel\<lparr>review_box := Review_Error ''Error: No wallet mounted''\<rparr>\<rparr>, [])
           else if \<not> truthy (current_public_key s) then
             (s\<lparr>send := send_panel\<lparr>review_box :=
                 Review_Error ''Error: No wallet public key found''\<rparr>\<rparr>, [])
           else
             (let (steps, final) = do_send env s to_addr amount password
              in (s\<lparr>send := (hide_confirm_step send_panel)\<lparr>review_box := final\<rparr>\<rparr>, steps))))"

text \<open>
  What the user can do on the send panel. The password field and the buttons
  \<open>Confirm Send\<close> and \<open>Go Back\<close> sit in the confirmation container, which is displayed only
  while \<open>confirming\<close> holds; the address and amount fields and the buttons \<open>Send\<close> and
  \<open>Clear\<close> are always displayed. The percentage buttons write a formatted amount into the
  amount field and are \<open>Edit_Amount\<close> events.
\<close>

datatype send_event =
    Edit_To string
  | Edit_Amount string
  | Edit_Password string
  | Press_Send
  | Press_Clear
  | Press_Back
  | Press_Confirm

fun send_event_step :: "send_env \<Rightarrow> send_event \<Rightarrow> session \<Rightarrow> session \<times> send_step list" where
  "send_event_step env (Edit_To v) s = (s\<lparr>send := update_review env ((send s)\<lparr>to_address := v\<rparr>)\<rparr>, [])"
| "send_event_step env (Edit_Amount v) s =
     (s\<lparr>send := update_review env ((send s)\<lparr>amount_input := v\<rparr>)\<rparr>, [])"
| "send_event_step env (Edit_Password v) s =
     (if confirming (send s) then (s\<lparr>send := (send s)\<lparr>wallet_password := v\<rparr>\<rparr>, []) else (s, []))"
| "send_event_step env Press_Send s = (s\<lparr>send := show_confirm_step env (send s)\<rparr>, [])"
| "send_event_step env Press_Clear s = (s\<lparr>send := clear_form (send s)\<rparr>, [])"
| "send_event_step env Press_Back s =
     (if confirming (send s) then (s\<lparr>send := hide_confirm_step (send s)\<rparr>, []) else (s, []))"
| "send_event_step env Press_Confirm s =
     (if confirming (send s) then on_send_requested env s else (s, []))"

text \<open>A run of the send flow: the final session and the worker calls of every event, in order.\<close>

fun send_flow :: "send_env \<Rightarrow> send_event list \<Rightarrow> session \<Rightarrow> session \<times> send_step list list" where
  "send_flow env [] s = (s, [])"
| "send_flow env (e # es) s =
     (let (s1, steps) = send_event_step env e s;
          (s2, rest) = send_flow env es s1
      in (s2, steps # rest))"

section \<open>Views of the session used in the statements\<close>

text \<open>
  The fields of the session that hold the public key, and those that hold the balance, the
  tokens and the transactions, in the application and in the panels that display them.
\<close>

definition key_fields :: "session \<Rightarrow> string option \<times> string \<times> string" where
  "key_fields s = (current_public_key s, info_public_key s, public_key (portfolio s))"

definition wallet_fields ::
  "session \<Rightarrow> (rat \<times> rat \<times> rat \<times> rat \<times> rat) \<times>
     (token_balance list \<times> token_balance list \<times> token_balance option) \<times> history_panel" where
  "wallet_fields s =
    ((current_balance s, info_balance s, sol_balance (portfolio s), panel_balance (send s),
      details_sol_balance s),
     (current_tokens s, tokens (portfolio s), details_selected_token s),
     history s)"

section \<open>Example inputs\<close>

definition example_accounts :: "token_account list" where
  "example_accounts = [Token_Account (Some ''XYZ'') (Some 3) 2,
            Unparsed_Account,
            Token_Account (Some ''EPjFWdd5AufqSSqeM2qN1xzybapC8G4wEGGkZwyTDt1v'') None 6,
            Token_Account (Some ''DezXAZ8z7PnrnRJjz3wXBoRgixCa6xjnB7YaB1pPB263'') (Some 5) 5]"

definition example_txs :: "raw_tx list" where
  "example_txs =
    [\<lparr>signature = ''sigA'', slot = 30, blockTime = Some 1700000300, err = None\<rparr>,
     \<lparr>signature = ''sigB'', slot = 20, blockTime = Some 1700000200, err = None\<rparr>,
     \<lparr>signature = ''sigC'', slot = 10, blockTime = None, err = None\<rparr>]"

definition example_sent_detail :: tx_detail where
  "example_sent_detail =
    \<lparr>account_keys = [''owner'', ''peer''], preBalances = [1000000000, 0],
     postBalances = [499995000, 500000000], fee = 5000\<rparr>"

definition example_received_detail :: tx_detail where
  "example_received_detail =
    \<lparr>account_keys = [''peer'', ''owner''], preBalances = [2000000000, 499995000],
     postBalances = [1749995000, 749995000], fee = 5000\<rparr>"

definition example_details :: "string \<Rightarrow> tx_detail option" where
  "example_details sig =
    (if sig = ''sigA'' then Some example_sent_detail
     else if sig = ''sigB'' then Some example_received_detail
     else None)"

definition example_token :: "string \<Rightarrow> rat \<Rightarrow> token_balance" where
  "example_token m b =
    \<lparr>mint = Some m, symbol = ''Unknown'', icon = ''U+1FA99'', balance = b, decimals = 6,
     is_known = False\<rparr>"

definition example_entry :: "nat \<Rightarrow> tx_entry" where
  "example_entry n =
    copy_entry \<lparr>signature = replicate n (CHR ''s'') @ ''ig'', slot = 100 - n,
                blockTime = None, err = None\<rparr>"

definition example_session :: session where
  "example_session =
    \<lparr>current_public_key = Some ''owner'',
     current_balance = 1,
     current_tokens = [example_token ''mintA'' 3, example_token ''mintB'' 2, example_token ''mintC'' 1],
     did_unmount = False,
     detected_devices = [\<lparr>dev_device = ''/dev/sdb'', dev_model = ''COLDSTAR'',
                          dev_mountpoint = Some ''/mnt/a'', dev_size = ''8G''\<rparr>],
     selected_device_index = Some 0,
     last_mount_attempt = 0,
     mount_point = Some ''/mnt/a'',
     status_mode = ''READY'',
     network_status = ''Connected'',
     wallet_name = ''COLDSTAR'',
     info_public_key = ''owner'',
     info_balance = 1,
     portfolio = \<lparr>tokens = [example_token ''mintA'' 3, example_token ''mintB'' 2, example_token ''mintC'' 1],
                  selected_index = 3, sol_balance = 1, public_key = ''owner''\<rparr>,
     details_selected_token = Some (example_token ''mintC'' 1),
     details_sol_balance = 1,
     history = \<lparr>transactions = map example_entry [0..<12], page_size = 5, tx_selected_index = 0\<rparr>,
     send = \<lparr>to_address = [], amount_input = [], wallet_password = [], confirming = False,
             review_box = Review_Hint, confirm_summary = [], panel_balance = 1\<rparr>,
     exited = False\<rparr>"

definition example_shrunk_session :: session where
  "example_shrunk_session =
     example_session\<lparr>current_tokens := [example_token ''mintA'' 3, example_token ''mintB'' 2]\<rparr>"

definition example_first_page_session :: session where
  "example_first_page_session =
     update_txs (enrich_transactions example_details (take 1 example_txs) ''owner'') example_session"

definition example_two_device_env :: poll_env where
  "example_two_device_env =
    \<lparr>net_is_connected = True,
     usb_detect_devices =
       [\<lparr>dev_device = ''/dev/sdb'', dev_model = ''COLDSTAR'', dev_mountpoint = Some ''/mnt/a'',
         dev_size = ''8G''\<rparr>,
        \<lparr>dev_device = ''/dev/sdc'', dev_model = ''BLANK'', dev_mountpoint = Some ''/mnt/b'',
         dev_size = ''8G''\<rparr>],
     time_now = 100,
     usb_mount_device = (\<lambda>d. None),
     pubkey_file = (\<lambda>mp. if mp = ''/mnt/a'' then Some ''owner'' else None),
     net_get_balance = (\<lambda>pk. Some 1),
     net_token_accounts = (\<lambda>pk. []),
     net_transaction_history = (\<lambda>pk n. []),
     net_transaction_details = (\<lambda>sig. None)\<rparr>"

definition example_no_device_env :: poll_env where
  "example_no_device_env = example_two_device_env\<lparr>usb_detect_devices := []\<rparr>"

definition example_send_env :: send_env where
  "example_send_env =
    \<lparr>validate_address = (\<lambda>a. a = ''7xKXtg2CW87d97TXJSDpbD5jBkheTqA83TZRuJosgAsU''),
     parse_float = (\<lambda>v. if v = ''0.5'' then Some (1 / 2) else if v = ''0'' then Some 0
                         else if v = ''-1'' then Some (- 1) else None),
     get_latest_blockhash = Some ''blockhash'',
     create_transfer_transaction = (\<lambda>from_key to_key amount blockhash. Some ''unsigned''),
     load_encrypted_container = (\<lambda>path password. Some ''container''),
     sign_transaction_secure = (\<lambda>unsigned_tx container password. Some ''signed''),
     send_transaction = (\<lambda>signed_tx. Some ''txsig'')\<rparr>"

definition example_offline_env :: poll_env where
  "example_offline_env =
     example_two_device_env\<lparr>net_is_connected := False,
       usb_detect_devices := take 1 (usb_detect_devices example_two_device_env)\<rparr>"

section \<open>Verified properties\<close>

subsection \<open>Token balances\<close>

lemma parse_token_balance_None_iff:
  "parse_token_balance a = None \<longleftrightarrow> a = Unparsed_Account"
  by (cases a) (simp_all add: Let_def)

lemma parse_accounts_mset:
  "mset (parse_accounts accounts) =
     image_mset (\<lambda>a. the (parse_token_balance a)) (filter_mset (\<lambda>a. a \<noteq> Unparsed_Account) (mset accounts))"
  by (induction accounts) (auto simp: parse_token_balance_None_iff split: option.splits)

lemma find_token_info_Some:
  "find_token_info m tbl = Some d \<Longrightarrow> \<exists>n. (n, d) \<in> set tbl \<and> Some (ti_mint d) = m"
  by (induction m tbl rule: find_token_info.induct) (auto split: if_splits)

lemma find_token_info_None:
  "find_token_info m tbl = None \<longleftrightarrow> (\<forall>(n, d) \<in> set tbl. Some (ti_mint d) \<noteq> m)"
  by (induction m tbl rule: find_token_info.induct) (auto split: if_splits)

lemma parse_token_balance_fields:
  assumes "parse_token_balance (Token_Account m ui dec) = Some e"
  shows "mint e = m \<and> decimals e = dec \<and> balance e = (case ui of Some a \<Rightarrow> a | None \<Rightarrow> 0)
     \<and> (is_known e \<longleftrightarrow> (\<exists>(n, d) \<in> set KNOWN_TOKENS. Some (ti_mint d) = m))
     \<and> (\<not> is_known e \<longrightarrow> symbol e = ''Unknown'')"
proof (cases "find_token_info m KNOWN_TOKENS")
  case None
  then have "\<not> (\<exists>(n, d) \<in> set KNOWN_TOKENS. Some (ti_mint d) = m)"
    using find_token_info_None[of m KNOWN_TOKENS] by auto
  with None assms show ?thesis
    by (auto simp: Let_def)
next
  case (Some d)
  then have "\<exists>(n, d) \<in> set KNOWN_TOKENS. Some (ti_mint d) = m"
    using find_token_info_Some[OF Some] by auto
  with Some assms show ?thesis
    by (auto simp: Let_def)
qed

lemma sorted_balance_key_order:
  assumes "sorted (map balance_key r)" "i < j" "j < length r"
  shows "(is_known (r ! j) \<longrightarrow> is_known (r ! i)) \<and>
         (is_known (r ! i) = is_known (r ! j) \<longrightarrow> balance (r ! j) \<le> balance (r ! i))"
proof -
  have "balance_key (r ! i) \<le> balance_key (r ! j)"
    using assms sorted_nth_mono[of "map balance_key r" i j] by simp
  then show ?thesis
    by (auto simp: balance_key_def less_eq_prod_def)
qed

text \<open>
  Claim C10. For every list of token accounts of a wallet, \<open>get_all_token_balances\<close> returns
  exactly one entry for every account that carries parsed token data, also when its balance
  is zero or absent; an account whose mint is not in the known-token table is kept with the
  symbol \<open>Unknown\<close>; entries of known tokens come before the others, within each of the two
  groups the balances descend, and entries with equal key keep the order of the accounts.
\<close>

theorem get_all_token_balances_sorted_complete:
  "mset (get_all_token_balances accounts) =
     image_mset (\<lambda>a. the (parse_token_balance a))
       (filter_mset (\<lambda>a. a \<noteq> Unparsed_Account) (mset accounts))
   \<and> (\<forall>m ui dec. Token_Account m ui dec \<in> set accounts \<longrightarrow>
         (\<exists>e \<in> set (get_all_token_balances accounts).
            mint e = m \<and> decimals e = dec \<and> balance e = (case ui of Some a \<Rightarrow> a | None \<Rightarrow> 0)
            \<and> (is_known e \<longleftrightarrow> (\<exists>(n, d) \<in> set KNOWN_TOKENS. Some (ti_mint d) = m))
            \<and> (\<not> is_known e \<longrightarrow> symbol e = ''Unknown'')))
   \<and> (\<forall>i j. i < j \<and> j < length (get_all_token_balances accounts) \<longrightarrow>
         (is_known (get_all_token_balances accounts ! j) \<longrightarrow> is_known (get_all_token_balances accounts ! i))
         \<and> (is_known (get_all_token_balances accounts ! i) = is_known (get_all_token_balances accounts ! j)
              \<longrightarrow> balance (get_all_token_balances accounts ! j) \<le> balance (get_all_token_balances accounts ! i)))
   \<and> (\<forall>k. filter (\<lambda>e. balance_key e = k) (get_all_token_balances accounts)
          = filter (\<lambda>e. balance_key e = k) (parse_accounts accounts))"
proof -
  let ?r = "get_all_token_balances accounts"
  have A: "mset ?r = image_mset (\<lambda>a. the (parse_token_balance a))
       (filter_mset (\<lambda>a. a \<noteq> Unparsed_Account) (mset accounts))"
    by (simp add: get_all_token_balances_def parse_accounts_mset)
  have B: "\<forall>m ui dec. Token_Account m ui dec \<in> set accounts \<longrightarrow>
         (\<exists>e \<in> set ?r.
            mint e = m \<and> decimals e = dec \<and> balance e = (case ui of Some a \<Rightarrow> a | None \<Rightarrow> 0)
            \<and> (is_known e \<longleftrightarrow> (\<exists>(n, d) \<in> set KNOWN_TOKENS. Some (ti_mint d) = m))
            \<and> (\<not> is_known e \<longrightarrow> symbol e = ''Unknown''))"
  proof (intro allI impI)
    fix m ui dec assume a: "Token_Account m ui dec \<in> set accounts"
    obtain e where e: "parse_token_balance (Token_Account m ui dec) = Some e"
      by (simp add: Let_def)
    have "e \<in> set (parse_accounts accounts)"
      using a e by (induction accounts) (auto split: option.splits)
    then have "e \<in> set ?r"
      by (simp add: get_all_token_balances_def)
    then show "\<exists>e \<in> set ?r.
            mint e = m \<and> decimals e = dec \<and> balance e = (case ui of Some a \<Rightarrow> a | None \<Rightarrow> 0)
            \<and> (is_known e \<longleftrightarrow> (\<exists>(n, d) \<in> set KNOWN_TOKENS. Some (ti_mint d) = m))
            \<and> (\<not> is_known e \<longrightarrow> symbol e = ''Unknown'')"
      using parse_token_balance_fields[OF e] by blast
  qed
  have srt: "sorted (map balance_key ?r)"
    by (simp add: get_all_token_balances_def)
  have C: "\<forall>i j. i < j \<and> j < length ?r \<longrightarrow>
         (is_known (?r ! j) \<longrightarrow> is_known (?r ! i))
         \<and> (is_known (?r ! i) = is_known (?r ! j) \<longrightarrow> balance (?r ! j) \<le> balance (?r ! i))"
    using sorted_balance_key_order[OF srt] by blast
  have D: "\<forall>k. filter (\<lambda>e. balance_key e = k) ?r
          = filter (\<lambda>e. balance_key e = k) (parse_accounts accounts)"
    by (simp add: get_all_token_balances_def sort_key_stable)
  show ?thesis
    by (rule conjI[OF A conjI[OF B conjI[OF C D]]])
qed

theorem get_all_token_balances_witness:
  "(0::nat) < 1 \<and> 1 < length (get_all_token_balances example_accounts)
   \<and> is_known (get_all_token_balances example_accounts ! 0)
   \<and> balance (get_all_token_balances example_accounts ! 1) \<le> balance (get_all_token_balances example_accounts ! 0)
   \<and> Token_Account (Some ''XYZ'') (Some 3) 2 \<in> set example_accounts
   \<and> (\<exists>e \<in> set (get_all_token_balances example_accounts).
         mint e = Some ''XYZ'' \<and> balance e = 3 \<and> \<not> is_known e \<and> symbol e = ''Unknown'')"
proof -
  note T = get_all_token_balances_sorted_complete[of example_accounts]
  have len: "length (get_all_token_balances example_accounts) = 3"
    by code_simp
  have k1: "is_known (get_all_token_balances example_accounts ! 1)"
    by code_simp
  have ord: "(is_known (get_all_token_balances example_accounts ! 1) \<longrightarrow> is_known (get_all_token_balances example_accounts ! 0))
     \<and> (is_known (get_all_token_balances example_accounts ! 0) = is_known (get_all_token_balances example_accounts ! 1)
          \<longrightarrow> balance (get_all_token_balances example_accounts ! 1) \<le> balance (get_all_token_balances example_accounts ! 0))"
    using T[THEN conjunct2, THEN conjunct2, THEN conjunct1, rule_format, of 0 1] len by simp
  have mem: "Token_Account (Some ''XYZ'') (Some 3) 2 \<in> set example_accounts"
    by (simp add: example_accounts_def)
  have unk: "\<not> (\<exists>(n, d) \<in> set KNOWN_TOKENS. Some (ti_mint d) = Some ''XYZ'')"
    by (simp add: KNOWN_TOKENS_def)
  have ex: "\<exists>e \<in> set (get_all_token_balances example_accounts).
         mint e = Some ''XYZ'' \<and> balance e = 3 \<and> \<not> is_known e \<and> symbol e = ''Unknown''"
    using T[THEN conjunct2, THEN conjunct1, rule_format, OF mem] unk by auto
  show ?thesis
    using len k1 ord mem ex by simp
qed

subsection \<open>Transaction enrichment\<close>

lemma enrich_transactions_map:
  "enrich_transactions details txs pubkey = map (enrich_entry details pubkey) txs"
  by (induction txs) simp_all

lemma copy_entry_fields:
  "signature (copy_entry tx) = signature tx" "slot (copy_entry tx) = slot tx"
  "blockTime (copy_entry tx) = blockTime tx" "err (copy_entry tx) = err tx"
  "direction (copy_entry tx) = None" "sol_delta (copy_entry tx) = None"
  "fee_sol (copy_entry tx) = None"
  by (simp_all add: copy_entry_def raw_tx.extend_def tx_entry.fields_def)

lemma apply_detail_base:
  "signature (apply_detail pubkey d e) = signature e" "slot (apply_detail pubkey d e) = slot e"
  "blockTime (apply_detail pubkey d e) = blockTime e" "err (apply_detail pubkey d e) = err e"
  by (simp_all add: apply_detail_def Let_def)

lemma enrich_entry_base:
  "signature (enrich_entry details pubkey tx) = signature tx"
  "slot (enrich_entry details pubkey tx) = slot tx"
  "blockTime (enrich_entry details pubkey tx) = blockTime tx"
  "err (enrich_entry details pubkey tx) = err tx"
  by (simp_all add: enrich_entry_def copy_entry_fields apply_detail_base split: option.splits)


lemma index_of_first:
  "x \<in> set xs \<Longrightarrow> index_of x xs < length xs \<and> xs ! index_of x xs = x \<and> x \<notin> set (take (index_of x xs) xs)"
  by (induction xs) auto

lemma index_of_zero_iff:
  "x \<in> set xs \<Longrightarrow> index_of x xs = 0 \<longleftrightarrow> hd xs = x"
  by (cases xs) auto





text \<open>
  Claim C3. When the detail lookup succeeds, the owner's key is among the account keys at
  index \<open>idx\<close> with a pre- and a post-balance at that index, and the entry is not in the
  sent case, then a balance that went up gives direction \<open>received\<close>, any other gives
  direction \<open>other\<close>, and in both cases the SOL delta is \<open>post[idx] - pre[idx]\<close> in
  native units.
\<close>

theorem enrich_received_or_other:
  assumes "i < length txs"
    and "details (signature (txs ! i)) = Some d"
    and "pubkey \<in> set (account_keys d)"
    and "idx = index_of pubkey (account_keys d)"
    and "idx < length (preBalances d)" and "idx < length (postBalances d)"
    and "\<not> (idx = 0 \<and> postBalances d ! idx - preBalances d ! idx < 0)"
  shows "(if postBalances d ! idx - preBalances d ! idx > 0
          then direction (enrich_transactions details txs pubkey ! i) = Some Received
          else direction (enrich_transactions details txs pubkey ! i) = Some Other)
    \<and> sol_delta (enrich_transactions details txs pubkey ! i)
        = Some (of_int (postBalances d ! idx - preBalances d ! idx) / 1000000000)
    \<and> fee_sol (enrich_transactions details txs pubkey ! i) = Some (of_int (fee d) / 1000000000)"
proof -
  have "enrich_transactions details txs pubkey ! i = apply_detail pubkey d (copy_entry (txs ! i))"
    using assms(1,2) by (simp add: enrich_transactions_map enrich_entry_def)
  then show ?thesis
    using assms(3-7)
    by (auto simp add: apply_detail_def Let_def LAMPORTS_PER_SOL_def)
qed



theorem enrich_received_or_other_witness:
  "direction (enrich_transactions example_details example_txs ''owner'' ! 1) = Some Received
   \<and> sol_delta (enrich_transactions example_details example_txs ''owner'' ! 1) = Some (1 / 4)"
proof -
  have h1: "1 < length example_txs"
    by (simp add: example_txs_def)
  have h2: "example_details (signature (example_txs ! 1)) = Some example_received_detail"
    by (simp add: example_txs_def example_details_def)
  have h3: "''owner'' \<in> set (account_keys example_received_detail)"
    and h4: "(1::nat) = index_of ''owner'' (account_keys example_received_detail)"
    and h5: "(1::nat) < length (preBalances example_received_detail)"
    and h6: "(1::nat) < length (postBalances example_received_detail)"
    and h7: "\<not> ((1::nat) = 0 \<and> postBalances example_received_detail ! 1 - preBalances example_received_detail ! 1 < 0)"
    by (simp_all add: example_received_detail_def)
  show ?thesis
    using enrich_received_or_other[of 1 example_txs example_details example_received_detail
        "''owner''" 1, OF h1 h2 h3 h4 h5 h6 h7]
    by (simp add: example_received_detail_def)
qed


subsection \<open>Token selection\<close>

lemma apply_token_selection_result:
  "details_selected_token (apply_token_selection index s) =
     (if index \<le> 0 \<or> current_tokens s = [] then None
      else if index \<le> int (length (current_tokens s)) then Some (current_tokens s ! nat (index - 1))
      else Some (current_tokens s ! 0))"
  by (simp add: apply_token_selection_def Let_def)

lemma apply_token_selection_frame:
  "portfolio (apply_token_selection index s) = portfolio s"
  "current_tokens (apply_token_selection index s) = current_tokens s"
  by (simp_all add: apply_token_selection_def Let_def)

text \<open>
  Claim C5, as amended. The arrow keys keep the token selection index within
  \<open>[0, tokenCount]\<close>. A token-list update stores the new list and leaves the index as it
  is, so the stored index can exceed a list that shrank. The selection applied to the detail
  panels always resolves to a valid element: the native asset when the index is at most 0 or
  no token is held, the token at the index when it lies in \<open>1..tokenCount\<close>, and the first
  token when the index lies beyond the list.
\<close>

theorem selection_resolves_to_valid_element:
  "(0 \<le> selected_index p \<and> selected_index p \<le> int (length (tokens p)) \<longrightarrow>
      0 \<le> selected_index (fst (pf_action_select_next p))
      \<and> selected_index (fst (pf_action_select_next p)) \<le> int (length (tokens (fst (pf_action_select_next p))))
      \<and> 0 \<le> selected_index (fst (pf_action_select_prev p))
      \<and> selected_index (fst (pf_action_select_prev p)) \<le> int (length (tokens (fst (pf_action_select_prev p)))))
   \<and> selected_index (portfolio (update_tokens toks s)) = selected_index (portfolio s)
   \<and> tokens (portfolio (update_tokens toks s)) = toks
   \<and> details_selected_token (apply_token_selection index s) =
       (if index \<le> 0 \<or> current_tokens s = [] then None
        else if index \<le> int (length (current_tokens s)) then Some (current_tokens s ! nat (index - 1))
        else Some (current_tokens s ! 0))
   \<and> (\<forall>t. details_selected_token (apply_token_selection index s) = Some t \<longrightarrow> t \<in> set (current_tokens s))"
proof -
  have A: "0 \<le> selected_index p \<and> selected_index p \<le> int (length (tokens p)) \<longrightarrow>
      0 \<le> selected_index (fst (pf_action_select_next p))
      \<and> selected_index (fst (pf_action_select_next p)) \<le> int (length (tokens (fst (pf_action_select_next p))))
      \<and> 0 \<le> selected_index (fst (pf_action_select_prev p))
      \<and> selected_index (fst (pf_action_select_prev p)) \<le> int (length (tokens (fst (pf_action_select_prev p))))"
    by (simp add: pf_action_select_next_def pf_action_select_prev_def Let_def)
  have B: "selected_index (portfolio (update_tokens toks s)) = selected_index (portfolio s)"
    and C: "tokens (portfolio (update_tokens toks s)) = toks"
    by (simp_all add: update_tokens_def Let_def apply_token_selection_frame)
  have D: "details_selected_token (apply_token_selection index s) =
       (if index \<le> 0 \<or> current_tokens s = [] then None
        else if index \<le> int (length (current_tokens s)) then Some (current_tokens s ! nat (index - 1))
        else Some (current_tokens s ! 0))"
    by (rule apply_token_selection_result)
  have E: "\<forall>t. details_selected_token (apply_token_selection index s) = Some t \<longrightarrow> t \<in> set (current_tokens s)"
    unfolding D by (auto split: if_splits)
  show ?thesis
    by (rule conjI[OF A conjI[OF B conjI[OF C conjI[OF D E]]]])
qed

theorem selection_after_shrink_counterexample:
  "selected_index (portfolio example_shrunk_session) = 3
   \<and> length (tokens (portfolio example_shrunk_session)) = 3
   \<and> selected_index (portfolio
        (update_tokens [example_token ''mintA'' 3, example_token ''mintB'' 2] example_shrunk_session)) = 3
   \<and> length (tokens (portfolio
        (update_tokens [example_token ''mintA'' 3, example_token ''mintB'' 2] example_shrunk_session))) = 2
   \<and> \<not> (selected_index (portfolio
        (update_tokens [example_token ''mintA'' 3, example_token ''mintB'' 2] example_shrunk_session))
        \<le> int (length (tokens (portfolio
        (update_tokens [example_token ''mintA'' 3, example_token ''mintB'' 2] example_shrunk_session)))))
   \<and> details_selected_token
        (update_tokens [example_token ''mintA'' 3, example_token ''mintB'' 2] example_shrunk_session)
        = Some (example_token ''mintA'' 3)
   \<and> details_selected_token
        (update_tokens [example_token ''mintA'' 3, example_token ''mintB'' 2] example_shrunk_session)
        \<noteq> Some (example_token ''mintB'' 2)"
  by (simp add: example_shrunk_session_def example_session_def update_tokens_def Let_def
      apply_token_selection_def example_token_def)

theorem selection_resolves_witness:
  "selected_index (fst (pf_action_select_next (portfolio example_session))) = 3
   \<and> selected_index (fst (pf_action_select_prev (portfolio example_session))) = 2
   \<and> details_selected_token (apply_token_selection 5 example_shrunk_session) = Some (example_token ''mintA'' 3)
   \<and> example_token ''mintA'' 3 \<in> set (current_tokens example_shrunk_session)"
proof -
  note T = selection_resolves_to_valid_element[of "portfolio example_session" _ example_shrunk_session 5]
  have h: "0 \<le> selected_index (portfolio example_session)
     \<and> selected_index (portfolio example_session) \<le> int (length (tokens (portfolio example_session)))"
    by (simp add: example_session_def)
  have r: "details_selected_token (apply_token_selection 5 example_shrunk_session) = Some (example_token ''mintA'' 3)"
    using T[THEN conjunct2, THEN conjunct2, THEN conjunct2, THEN conjunct1]
    by (simp add: example_shrunk_session_def example_session_def)
  have m: "example_token ''mintA'' 3 \<in> set (current_tokens example_shrunk_session)"
    using T[THEN conjunct2, THEN conjunct2, THEN conjunct2, THEN conjunct2, rule_format, OF r] .
  have n: "selected_index (fst (pf_action_select_next (portfolio example_session))) = 3
   \<and> selected_index (fst (pf_action_select_prev (portfolio example_session))) = 2"
    using T[THEN conjunct1, rule_format, OF h]
    by (simp add: example_session_def pf_action_select_next_def pf_action_select_prev_def)
  show ?thesis
    using n r m by simp
qed

subsection \<open>Page size and fetches\<close>

text \<open>
  Claim C9, as amended. Advancing the selection never posts a message, so it never starts a
  fetch; it grows the page size by 5 exactly when the new index reaches the page size and
  held entries remain beyond it. The load-more button grows the page size by 5 and always
  posts \<open>LoadMore\<close>, and the application answers \<open>LoadMore\<close> with a fetch whenever a
  public key is set and at least one transaction is held, whether or not held entries
  remain beyond the window.
\<close>

theorem page_growth_and_fetch:
  "snd (tx_action_select_next p) = []
   \<and> transactions (fst (tx_action_select_next p)) = transactions p
   \<and> page_size (fst (tx_action_select_next p)) =
       (if tx_selected_index p < max 0 (int (length (transactions p)) - 1)
           \<and> tx_selected_index p + 1 \<ge> page_size p \<and> page_size p < int (length (transactions p))
        then page_size p + 5 else page_size p)
   \<and> tx_on_button_pressed p = (p\<lparr>page_size := page_size p + 5\<rparr>, [LoadMore])
   \<and> (on_load_more s \<noteq> None \<longleftrightarrow> truthy (current_public_key s) \<and> transactions (history s) \<noteq> [])
   \<and> (on_load_more s \<noteq> None \<longrightarrow>
        on_load_more s = Some (signature (last (transactions (history s))), transactions (history s)))"
  by (simp add: tx_action_select_next_def tx_on_button_pressed_def on_load_more_def Let_def)

theorem load_more_button_counterexample:
  "load_more_button_displayed (history example_session)
   \<and> length (transactions (history example_session)) = 12
   \<and> page_size (fst (tx_on_button_pressed (history example_session))) = 10
   \<and> page_size (fst (tx_on_button_pressed (history example_session)))
       < int (length (transactions (fst (tx_on_button_pressed (history example_session)))))
   \<and> snd (tx_on_button_pressed (history example_session)) = [LoadMore]
   \<and> on_load_more (example_session\<lparr>history := fst (tx_on_button_pressed (history example_session))\<rparr>)
       = Some (''sssssssssssig'', map example_entry [0..<12])"
  by (simp add: example_session_def load_more_button_displayed_def tx_on_button_pressed_def
      on_load_more_def Let_def upt_rec[of _ 12] example_entry_def copy_entry_fields)

theorem page_growth_and_fetch_witness:
  "on_load_more example_session = Some (''sssssssssssig'', map example_entry [0..<12])"
proof -
  have h: "on_load_more example_session \<noteq> None"
    using page_growth_and_fetch[of _ example_session]
    by (simp add: example_session_def)
  show ?thesis
    using page_growth_and_fetch[of "history example_session" example_session, THEN conjunct2,
        THEN conjunct2, THEN conjunct2, THEN conjunct2, THEN conjunct2, rule_format, OF h]
    by (simp add: example_session_def upt_rec[of _ 12] example_entry_def copy_entry_fields)
qed

subsection \<open>Loading more transactions\<close>

lemma transactions_set_transactions:
  "transactions (set_transactions txs p) = txs"
  by (simp add: set_transactions_def)

lemma signatures_enrich_transactions:
  "map signature (enrich_transactions details txs pubkey) = map signature txs"
  by (simp add: enrich_transactions_map enrich_entry_base)

lemma entries_before_split:
  "distinct (map signature (xs @ t # ys)) \<Longrightarrow> entries_before (signature t) (xs @ t # ys) = ys"
  by (induction xs) auto

lemma entries_before_excludes_cursor:
  "distinct (map signature ledger) \<Longrightarrow> c \<notin> signature ` set (entries_before c ledger)"
  by (induction ledger) auto

lemma distinct_sublist:
  "sublist xs ys \<Longrightarrow> distinct ys \<Longrightarrow> distinct xs"
  by (auto simp: sublist_def)

lemma entries_before_after_held:
  assumes d: "distinct (map signature ledger)"
    and l: "map signature ledger = A @ map signature held @ B"
    and ne: "held \<noteq> []"
  shows "map signature (entries_before (signature (last held)) ledger) = B"
proof -
  have h: "map signature held = map signature (butlast held) @ [signature (last held)]"
    using ne by (metis append_butlast_last_id list.simps(8,9) map_append)
  have "map signature ledger = (A @ map signature (butlast held)) @ (signature (last held) # B)"
    using l h by simp
  then obtain xs rest where xs: "ledger = xs @ rest"
    and "map signature xs = A @ map signature (butlast held)"
    and rest: "map signature rest = signature (last held) # B"
    by (metis map_eq_append_conv)
  from rest obtain t ys where t: "rest = t # ys" "signature t = signature (last held)"
    "map signature ys = B"
    by (cases rest) auto
  have "entries_before (signature t) (xs @ t # ys) = ys"
    using d xs t(1) by (intro entries_before_split) simp
  then show ?thesis
    using xs t by simp
qed

lemma load_more_step:
  assumes d: "distinct (map signature ledger)"
    and sub: "sublist (map signature (transactions (history s))) (map signature ledger)"
  shows "prefix (transactions (history s))
           (transactions (history (load_more (ledger_rpc ledger) details s)))
    \<and> sublist (map signature (transactions (history (load_more (ledger_rpc ledger) details s))))
         (map signature ledger)"
proof (cases "on_load_more s")
  case None
  then show ?thesis using sub by (simp add: load_more_def)
next
  case (Some req)
  let ?held = "transactions (history s)"
  from Some have pk: "truthy (current_public_key s)" and ne: "?held \<noteq> []"
    and req: "req = (signature (last ?held), ?held)"
    by (auto simp: on_load_more_def Let_def split: if_splits)
  from pk obtain k where k: "current_public_key s = Some k"
    by (cases "current_public_key s") auto
  let ?page = "take 10 (entries_before (signature (last ?held)) ledger)"
  show ?thesis
  proof (cases "?page = []")
    case True
    then show ?thesis
      using Some req k sub by (simp add: load_more_def fetch_more_txs_def ledger_rpc_def)
  next
    case False
    then have res: "transactions (history (load_more (ledger_rpc ledger) details s))
        = ?held @ enrich_transactions details ?page k"
      using Some req k
      by (simp add: load_more_def fetch_more_txs_def ledger_rpc_def update_txs_def
          transactions_set_transactions Let_def)
    from sub obtain A B where l: "map signature ledger = A @ map signature ?held @ B"
      by (auto simp: sublist_def)
    have B: "map signature (entries_before (signature (last ?held)) ledger) = B"
      by (rule entries_before_after_held[OF d l ne])
    have "map signature ?page = take 10 B"
      unfolding B[symmetric] by (simp only: take_map)
    then have "map signature ledger
       = A @ map signature (?held @ enrich_transactions details ?page k) @ drop 10 B"
      using l by (simp add: signatures_enrich_transactions)
    then have "sublist (map signature (?held @ enrich_transactions details ?page k)) (map signature ledger)"
      by (metis sublist_appendI)
    then show ?thesis
      using res by simp
  qed
qed

lemma load_more_fold:
  assumes d: "distinct (map signature ledger)"
  shows "sublist (map signature (transactions (history s))) (map signature ledger) \<Longrightarrow>
    prefix (transactions (history s))
           (transactions (history (fold (load_more (ledger_rpc ledger)) ds s)))
    \<and> sublist (map signature (transactions (history (fold (load_more (ledger_rpc ledger)) ds s))))
         (map signature ledger)"
proof (induction ds arbitrary: s)
  case Nil
  then show ?case by simp
next
  case (Cons details ds)
  from load_more_step[OF d Cons.prems, of details]
  have p1: "prefix (transactions (history s))
           (transactions (history (load_more (ledger_rpc ledger) details s)))"
    and s1: "sublist (map signature (transactions (history (load_more (ledger_rpc ledger) details s))))
         (map signature ledger)"
    by simp_all
  from Cons.IH[OF s1] p1 show ?case
    by (auto intro: prefix_order.trans)
qed

text \<open>
  Claim C4. The ledger of the address has pairwise different signatures and the held
  transactions are a contiguous run of it, as every first page is. Then, for every sequence
  of loadMore operations (one detail lookup per operation), the list held before is a prefix
  of the list held after, so every held entry keeps its position and nothing is replaced; the
  list held after has no duplicate signature and is again a contiguous run of the ledger; and
  the fetch that the next loadMore starts takes the signature of the last held entry as its
  cursor, which no entry of the fetched page carries.
\<close>

theorem load_more_appends_without_duplicates:
  assumes "distinct (map signature ledger)"
    and "sublist (map signature (transactions (history s))) (map signature ledger)"
  shows "prefix (transactions (history s))
           (transactions (history (fold (load_more (ledger_rpc ledger)) ds s)))
    \<and> distinct (map signature (transactions (history (fold (load_more (ledger_rpc ledger)) ds s))))
    \<and> sublist (map signature (transactions (history (fold (load_more (ledger_rpc ledger)) ds s))))
         (map signature ledger)
    \<and> (\<forall>c txs. on_load_more s = Some (c, txs) \<longrightarrow>
          txs = transactions (history s) \<and> c = signature (last txs)
          \<and> (\<forall>pubkey page. ledger_rpc ledger pubkey 10 c = Some page \<longrightarrow> c \<notin> signature ` set page))"
proof -
  note F = load_more_fold[OF assms(1) assms(2), of ds]
  have D: "distinct (map signature (transactions (history (fold (load_more (ledger_rpc ledger)) ds s))))"
    using F assms(1) distinct_sublist by blast
  have C: "\<forall>c txs. on_load_more s = Some (c, txs) \<longrightarrow>
          txs = transactions (history s) \<and> c = signature (last txs)
          \<and> (\<forall>pubkey page. ledger_rpc ledger pubkey 10 c = Some page \<longrightarrow> c \<notin> signature ` set page)"
  proof (intro allI impI)
    fix c txs assume a: "on_load_more s = Some (c, txs)"
    have "c \<notin> signature ` set (take 10 (entries_before c ledger))"
      using entries_before_excludes_cursor[OF assms(1), of c] by (auto dest: in_set_takeD)
    then show "txs = transactions (history s) \<and> c = signature (last txs)
          \<and> (\<forall>pubkey page. ledger_rpc ledger pubkey 10 c = Some page \<longrightarrow> c \<notin> signature ` set page)"
      using a by (auto simp: on_load_more_def Let_def ledger_rpc_def split: if_splits)
  qed
  show ?thesis
    using F D C by blast
qed

lemma example_first_page_held:
  "map signature (transactions (history example_first_page_session)) = [''sigA'']"
  by (simp add: example_first_page_session_def update_txs_def transactions_set_transactions
      enrich_entry_base example_txs_def)

lemma example_first_page_key:
  "current_public_key example_first_page_session = Some ''owner''"
  by (simp add: example_first_page_session_def update_txs_def example_session_def)

theorem load_more_appends_witness:
  "prefix (transactions (history example_first_page_session))
     (transactions (history (fold (load_more (ledger_rpc example_txs))
        [example_details, example_details] example_first_page_session)))
   \<and> distinct (map signature (transactions (history (fold (load_more (ledger_rpc example_txs))
        [example_details, example_details] example_first_page_session))))
   \<and> on_load_more example_first_page_session
       = Some (''sigA'', transactions (history example_first_page_session))
   \<and> map signature (transactions (history (fold (load_more (ledger_rpc example_txs))
        [example_details, example_details] example_first_page_session)))
       = [''sigA'', ''sigB'', ''sigC'']"
proof -
  have run: "map signature (transactions (history (fold (load_more (ledger_rpc example_txs))
        [example_details, example_details] example_first_page_session)))
       = [''sigA'', ''sigB'', ''sigC'']"
    by code_simp
  have h1: "distinct (map signature example_txs)"
    by (simp add: example_txs_def)
  have h2: "sublist (map signature (transactions (history example_first_page_session)))
     (map signature example_txs)"
    unfolding example_first_page_held
    by (simp add: example_txs_def sublist_Cons_right)
  note T = load_more_appends_without_duplicates[OF h1 h2, of "[example_details, example_details]"]
  have ne: "transactions (history example_first_page_session) \<noteq> []"
    using example_first_page_held by auto
  have req: "on_load_more example_first_page_session \<noteq> None"
    using ne by (simp add: on_load_more_def example_first_page_key Let_def)
  then obtain c txs where ct: "on_load_more example_first_page_session = Some (c, txs)"
    by (cases "on_load_more example_first_page_session") auto
  from T[THEN conjunct2, THEN conjunct2, THEN conjunct2, rule_format, OF ct]
  have "txs = transactions (history example_first_page_session)" and "c = signature (last txs)"
    by simp_all
  moreover have "signature (last (transactions (history example_first_page_session))) = ''sigA''"
    using example_first_page_held ne
    by (metis last_map last.simps)
  ultimately have "on_load_more example_first_page_session
       = Some (''sigA'', transactions (history example_first_page_session))"
    using ct by simp
  then show ?thesis
    using T run by simp
qed

subsection \<open>The poll cycle\<close>

lemma fetch_balance_stage_key:
  "key_fields (fetch_balance_stage env pubkey s) = key_fields s"
  "mount_point (fetch_balance_stage env pubkey s) = mount_point s"
  "detected_devices (fetch_balance_stage env pubkey s) = detected_devices s"
  by (simp_all add: fetch_balance_stage_def key_fields_def update_balance_def update_tokens_def
      update_txs_def apply_token_selection_def Let_def split: option.splits)

lemma fetch_balance_stage_none:
  "net_get_balance env pubkey = None \<Longrightarrow> fetch_balance_stage env pubkey s = s"
  by (simp add: fetch_balance_stage_def)

lemma fetch_pubkey_stage_mount:
  "mount_point (fetch_pubkey_stage env s) = mount_point s"
  "detected_devices (fetch_pubkey_stage env s) = detected_devices s"
  by (simp_all add: fetch_pubkey_stage_def update_pubkey_def Let_def fetch_balance_stage_key
      split: option.splits)

lemma fetch_pubkey_stage_no_mount:
  "\<not> truthy (mount_point s) \<Longrightarrow> fetch_pubkey_stage env s = s"
  by (simp add: fetch_pubkey_stage_def)

lemma fetch_pubkey_stage_no_file:
  "mount_point s = Some mp \<Longrightarrow> pubkey_file env mp = None \<Longrightarrow> fetch_pubkey_stage env s = s"
  by (simp add: fetch_pubkey_stage_def)

lemma fetch_pubkey_stage_key:
  "current_public_key (fetch_pubkey_stage env s) = current_public_key s
   \<or> (\<exists>mp content. mount_point s = Some mp \<and> pubkey_file env mp = Some content
        \<and> current_public_key (fetch_pubkey_stage env s) = Some (strip content))"
proof (cases "truthy (mount_point s)")
  case False
  then show ?thesis by (simp add: fetch_pubkey_stage_no_mount)
next
  case True
  then obtain mp where mp: "mount_point s = Some mp"
    by (cases "mount_point s") auto
  show ?thesis
  proof (cases "pubkey_file env mp")
    case None
    then show ?thesis using mp by (simp add: fetch_pubkey_stage_no_file)
  next
    case (Some content)
    have "current_public_key (fetch_pubkey_stage env s) = Some (strip content)"
      using True mp Some fetch_balance_stage_key(1)[of env "strip content"]
      by (simp add: fetch_pubkey_stage_def Let_def update_pubkey_def key_fields_def)
    then show ?thesis using mp Some by simp
  qed
qed

lemma fetch_pubkey_stage_offline:
  "\<not> net_is_connected env \<Longrightarrow> wallet_fields (fetch_pubkey_stage env s) = wallet_fields s"
  by (simp add: fetch_pubkey_stage_def wallet_fields_def update_pubkey_def Let_def
      split: option.splits)

lemma fetch_pubkey_stage_no_balance:
  assumes "\<forall>pk. current_public_key (fetch_pubkey_stage env s) = Some pk \<longrightarrow> net_get_balance env pk = None"
  shows "wallet_fields (fetch_pubkey_stage env s) = wallet_fields s"
proof (cases "truthy (mount_point s)")
  case False
  then show ?thesis by (simp add: fetch_pubkey_stage_no_mount)
next
  case True
  then obtain mp where mp: "mount_point s = Some mp"
    by (cases "mount_point s") auto
  show ?thesis
  proof (cases "pubkey_file env mp")
    case None
    then show ?thesis using mp by (simp add: fetch_pubkey_stage_no_file)
  next
    case (Some content)
    have k: "current_public_key (fetch_pubkey_stage env s) = Some (strip content)"
      using True mp Some fetch_balance_stage_key(1)[of env "strip content"]
      by (simp add: fetch_pubkey_stage_def Let_def update_pubkey_def key_fields_def)
    then have "net_get_balance env (strip content) = None"
      using assms by blast
    then show ?thesis
      using True mp Some
      by (simp add: fetch_pubkey_stage_def Let_def fetch_balance_stage_none update_pubkey_def
          wallet_fields_def)
  qed
qed

lemma mount_stage_split:
  "\<exists>t. mount_stage env dev s = fetch_pubkey_stage env t
       \<and> key_fields t = key_fields s \<and> wallet_fields t = wallet_fields s
       \<and> detected_devices t = detected_devices s"
  by (rule exI[of _ "update_status_bar
        (if strip (dev_model dev) = [] then ''COLDSTAR'' else strip (dev_model dev))
        (if truthy (dev_mountpoint dev) then s\<lparr>mount_point := dev_mountpoint dev\<rparr>
         else if time_now env - last_mount_attempt s > 5 then
           (if truthy (usb_mount_device env (dev_device dev))
            then s\<lparr>last_mount_attempt := time_now env,
                   mount_point := usb_mount_device env (dev_device dev)\<rparr>
            else s\<lparr>last_mount_attempt := time_now env\<rparr>)
         else s)"])
    (simp add: mount_stage_def Let_def update_status_bar_def key_fields_def wallet_fields_def)

lemma fetch_wallet_data_split:
  "\<exists>t. (fetch_wallet_data env s = t \<or> fetch_wallet_data env s = fetch_pubkey_stage env t)
       \<and> (usb_detect_devices env = [] \<longrightarrow> fetch_wallet_data env s = t \<and> mount_point t = mount_point s)
       \<and> key_fields t = key_fields s \<and> wallet_fields t = wallet_fields s
       \<and> detected_devices t = usb_detect_devices env"
proof -
  let ?s2 = "update_devices (usb_detect_devices env) (update_network_status (net_is_connected env) s)"
  have base: "key_fields ?s2 = key_fields s" "wallet_fields ?s2 = wallet_fields s"
    "detected_devices ?s2 = usb_detect_devices env" "mount_point ?s2 = mount_point s"
    by (simp_all add: update_devices_def update_network_status_def key_fields_def wallet_fields_def)
  have mode: "\<And>m. key_fields (set_mode m ?s2) = key_fields s \<and> wallet_fields (set_mode m ?s2) = wallet_fields s
     \<and> detected_devices (set_mode m ?s2) = usb_detect_devices env \<and> mount_point (set_mode m ?s2) = mount_point s"
    using base by (simp add: set_mode_def key_fields_def wallet_fields_def)
  have sel: "key_fields (?s2\<lparr>selected_device_index := Some 0\<rparr>) = key_fields s
     \<and> wallet_fields (?s2\<lparr>selected_device_index := Some 0\<rparr>) = wallet_fields s
     \<and> detected_devices (?s2\<lparr>selected_device_index := Some 0\<rparr>) = usb_detect_devices env"
    using base by (simp add: key_fields_def wallet_fields_def)
  consider (none) "usb_detect_devices env = []"
    | (one) "usb_detect_devices env \<noteq> []" "length (usb_detect_devices env) = 1"
    | (unsel) "usb_detect_devices env \<noteq> []" "length (usb_detect_devices env) \<noteq> 1"
        "selected_device_index ?s2 = None
         \<or> (\<exists>i. selected_device_index ?s2 = Some i \<and> i \<ge> length (usb_detect_devices env))"
    | (sel) i where "usb_detect_devices env \<noteq> []" "length (usb_detect_devices env) \<noteq> 1"
        "selected_device_index ?s2 = Some i" "i < length (usb_detect_devices env)"
    by (cases "selected_device_index ?s2") force+
  then show ?thesis
  proof cases
    case none
    then have "fetch_wallet_data env s = set_mode ''OFFLINE'' ?s2"
      by (simp add: fetch_wallet_data_def Let_def)
    then show ?thesis using mode[of "''OFFLINE''"] none by auto
  next
    case one
    then have r: "fetch_wallet_data env s
       = mount_stage env (usb_detect_devices env ! 0) (?s2\<lparr>selected_device_index := Some 0\<rparr>)"
      by (simp add: fetch_wallet_data_def Let_def)
    from mount_stage_split[of env "usb_detect_devices env ! 0" "?s2\<lparr>selected_device_index := Some 0\<rparr>"]
    obtain t where "mount_stage env (usb_detect_devices env ! 0) (?s2\<lparr>selected_device_index := Some 0\<rparr>)
        = fetch_pubkey_stage env t"
      "key_fields t = key_fields (?s2\<lparr>selected_device_index := Some 0\<rparr>)"
      "wallet_fields t = wallet_fields (?s2\<lparr>selected_device_index := Some 0\<rparr>)"
      "detected_devices t = detected_devices (?s2\<lparr>selected_device_index := Some 0\<rparr>)"
      by blast
    then show ?thesis using r sel one(1) by auto
  next
    case unsel
    then have "fetch_wallet_data env s = set_mode ''SELECT USB'' ?s2"
      by (auto simp add: fetch_wallet_data_def Let_def)
    then show ?thesis using mode[of "''SELECT USB''"] unsel(1) by auto
  next
    case sel
    then have r: "fetch_wallet_data env s = mount_stage env (usb_detect_devices env ! i) ?s2"
      by (simp add: fetch_wallet_data_def Let_def)
    from mount_stage_split[of env "usb_detect_devices env ! i" ?s2]
    obtain t where "mount_stage env (usb_detect_devices env ! i) ?s2 = fetch_pubkey_stage env t"
      "key_fields t = key_fields ?s2" "wallet_fields t = wallet_fields ?s2"
      "detected_devices t = detected_devices ?s2"
      by blast
    then show ?thesis using r base sel(1) by auto
  qed
qed

text \<open>
  Claim C6, as amended. Every poll cycle commits the device list it detected, which is the
  empty list when no device is present. A failure at a stage leaves unchanged every field
  that this stage and the stages after it would commit: with no device, with no mount point
  after the mount stage, or with no key file under the mount point, the public key, the
  balance, the tokens and the transactions are those of the session before the cycle; with
  the network unreachable, or with no balance answered for the public key, the balance, the
  tokens and the transactions are those of the session before the cycle.
\<close>

theorem poll_failure_keeps_later_stages:
  "detected_devices (fetch_wallet_data env s) = usb_detect_devices env
   \<and> (usb_detect_devices env = [] \<longrightarrow>
        key_fields (fetch_wallet_data env s) = key_fields s
        \<and> wallet_fields (fetch_wallet_data env s) = wallet_fields s
        \<and> mount_point (fetch_wallet_data env s) = mount_point s)
   \<and> (\<not> truthy (mount_point (fetch_wallet_data env s)) \<longrightarrow>
        key_fields (fetch_wallet_data env s) = key_fields s
        \<and> wallet_fields (fetch_wallet_data env s) = wallet_fields s)
   \<and> (\<forall>mp. mount_point (fetch_wallet_data env s) = Some mp \<and> pubkey_file env mp = None \<longrightarrow>
        key_fields (fetch_wallet_data env s) = key_fields s
        \<and> wallet_fields (fetch_wallet_data env s) = wallet_fields s)
   \<and> (\<not> net_is_connected env \<longrightarrow> wallet_fields (fetch_wallet_data env s) = wallet_fields s)
   \<and> ((\<forall>pk. current_public_key (fetch_wallet_data env s) = Some pk \<longrightarrow> net_get_balance env pk = None)
        \<longrightarrow> wallet_fields (fetch_wallet_data env s) = wallet_fields s)"
proof -
  obtain t where t: "fetch_wallet_data env s = t \<or> fetch_wallet_data env s = fetch_pubkey_stage env t"
    and nodev: "usb_detect_devices env = [] \<longrightarrow> fetch_wallet_data env s = t \<and> mount_point t = mount_point s"
    and kt: "key_fields t = key_fields s" and wt: "wallet_fields t = wallet_fields s"
    and dt: "detected_devices t = usb_detect_devices env"
    using fetch_wallet_data_split[of env s] by blast
  have A: "detected_devices (fetch_wallet_data env s) = usb_detect_devices env"
    using t dt fetch_pubkey_stage_mount(2)[of env t] by auto
  have B: "usb_detect_devices env = [] \<longrightarrow>
        key_fields (fetch_wallet_data env s) = key_fields s
        \<and> wallet_fields (fetch_wallet_data env s) = wallet_fields s
        \<and> mount_point (fetch_wallet_data env s) = mount_point s"
    using nodev kt wt by auto
  have C: "\<not> truthy (mount_point (fetch_wallet_data env s)) \<longrightarrow>
        key_fields (fetch_wallet_data env s) = key_fields s
        \<and> wallet_fields (fetch_wallet_data env s) = wallet_fields s"
    using t kt wt fetch_pubkey_stage_mount(1)[of env t] fetch_pubkey_stage_no_mount[of t env]
    by auto
  have D: "\<forall>mp. mount_point (fetch_wallet_data env s) = Some mp \<and> pubkey_file env mp = None \<longrightarrow>
        key_fields (fetch_wallet_data env s) = key_fields s
        \<and> wallet_fields (fetch_wallet_data env s) = wallet_fields s"
    using t kt wt fetch_pubkey_stage_mount(1)[of env t] fetch_pubkey_stage_no_file[of t _ env]
    by auto
  have E: "\<not> net_is_connected env \<longrightarrow> wallet_fields (fetch_wallet_data env s) = wallet_fields s"
    using t wt fetch_pubkey_stage_offline[of env t] by auto
  have F: "(\<forall>pk. current_public_key (fetch_wallet_data env s) = Some pk \<longrightarrow> net_get_balance env pk = None)
        \<longrightarrow> wallet_fields (fetch_wallet_data env s) = wallet_fields s"
    using t wt fetch_pubkey_stage_no_balance[of env t] by auto
  show ?thesis
    by (rule conjI[OF A conjI[OF B conjI[OF C conjI[OF D conjI[OF E F]]]]])
qed

theorem poll_no_device_counterexample:
  "detected_devices example_session \<noteq> []
   \<and> usb_detect_devices example_no_device_env = []
   \<and> detected_devices (fetch_wallet_data example_no_device_env example_session) = []"
  by (simp add: example_session_def example_no_device_env_def example_two_device_env_def
      fetch_wallet_data_def Let_def update_devices_def update_network_status_def set_mode_def)

theorem poll_failure_witness:
  "usb_detect_devices example_no_device_env = []
   \<and> key_fields (fetch_wallet_data example_no_device_env example_session) = key_fields example_session
   \<and> current_public_key (fetch_wallet_data example_no_device_env example_session) = Some ''owner''
   \<and> wallet_fields (fetch_wallet_data example_no_device_env example_session)
       = wallet_fields example_session
   \<and> current_balance (fetch_wallet_data example_no_device_env example_session) = 1
   \<and> \<not> net_is_connected example_offline_env
   \<and> wallet_fields (fetch_wallet_data example_offline_env example_session)
       = wallet_fields example_session
   \<and> detected_devices (fetch_wallet_data example_offline_env example_session)
       = detected_devices example_session
   \<and> network_status (fetch_wallet_data example_offline_env example_session) = ''Disconnected''"
proof -
  have h: "usb_detect_devices example_no_device_env = []"
    by (simp add: example_no_device_env_def)
  note T = poll_failure_keeps_later_stages[of example_no_device_env example_session,
      THEN conjunct2, THEN conjunct1, rule_format, OF h]
  have k: "current_public_key (fetch_wallet_data example_no_device_env example_session) = Some ''owner''"
    using T by (simp add: key_fields_def example_session_def)
  have b: "current_balance (fetch_wallet_data example_no_device_env example_session) = 1"
    using T by (simp add: wallet_fields_def example_session_def)
  have off: "\<not> net_is_connected example_offline_env"
    by (simp add: example_offline_env_def)
  note U = poll_failure_keeps_later_stages[of example_offline_env example_session]
  have w: "wallet_fields (fetch_wallet_data example_offline_env example_session)
       = wallet_fields example_session"
    using U[THEN conjunct2, THEN conjunct2, THEN conjunct2, THEN conjunct2, THEN conjunct1] off
    by blast
  have d: "detected_devices (fetch_wallet_data example_offline_env example_session)
       = detected_devices example_session"
    using U[THEN conjunct1]
    by (simp add: example_offline_env_def example_two_device_env_def example_session_def)
  have n: "network_status (fetch_wallet_data example_offline_env example_session) = ''Disconnected''"
    by code_simp
  show ?thesis
    using h T k b off w d n by simp
qed

subsection \<open>Device selection\<close>

lemma refresh_data_split:
  "\<exists>t. (refresh_data env s = t \<or> refresh_data env s = fetch_pubkey_stage env t)
       \<and> key_fields t = key_fields s \<and> wallet_fields t = wallet_fields s"
proof -
  have "key_fields (set_mode ''SYNCING...'' s) = key_fields s"
    "wallet_fields (set_mode ''SYNCING...'' s) = wallet_fields s"
    by (simp_all add: set_mode_def key_fields_def wallet_fields_def)
  then show ?thesis
    using fetch_wallet_data_split[of env "set_mode ''SYNCING...'' s"]
    by (auto simp: refresh_data_def)
qed

text \<open>
  Claim C8, as amended. Selecting a device records the index and starts a refresh; it clears
  no field of the session. After the operation the public key is either the one held before
  or the one read from the key file under the mount point of the refresh, and when the
  refresh ends without a mount point or without a key file, the public key, the balance, the
  tokens and the transactions of the device selected before all carry over. Unmount is the
  operation that clears the public key, the balance and the tokens; it leaves the
  transactions.
\<close>

theorem device_selection_keeps_session:
  "on_device_panel_device_selected env index s
     = fetch_wallet_data env (s\<lparr>selected_device_index := Some index, status_mode := ''SYNCING...''\<rparr>)
   \<and> (current_public_key (on_device_panel_device_selected env index s) = current_public_key s
       \<or> (\<exists>mp content. mount_point (on_device_panel_device_selected env index s) = Some mp
             \<and> pubkey_file env mp = Some content
             \<and> current_public_key (on_device_panel_device_selected env index s) = Some (strip content)))
   \<and> (\<not> truthy (mount_point (on_device_panel_device_selected env index s))
        \<or> (\<exists>mp. mount_point (on_device_panel_device_selected env index s) = Some mp
                \<and> pubkey_file env mp = None)
       \<longrightarrow> key_fields (on_device_panel_device_selected env index s) = key_fields s
           \<and> wallet_fields (on_device_panel_device_selected env index s) = wallet_fields s)
   \<and> (truthy (mount_point s) \<longrightarrow>
        current_public_key (action_unmount False s) = None
        \<and> current_balance (action_unmount False s) = 0
        \<and> current_tokens (action_unmount False s) = []
        \<and> history (action_unmount False s) = history s)"
proof -
  let ?s0 = "s\<lparr>selected_device_index := Some index\<rparr>"
  let ?r = "on_device_panel_device_selected env index s"
  have r: "?r = refresh_data env ?s0"
    by (simp add: on_device_panel_device_selected_def)
  have s0: "key_fields ?s0 = key_fields s" "wallet_fields ?s0 = wallet_fields s"
    by (simp_all add: key_fields_def wallet_fields_def)
  obtain t where t: "?r = t \<or> ?r = fetch_pubkey_stage env t"
    and kt: "key_fields t = key_fields s" and wt: "wallet_fields t = wallet_fields s"
    using refresh_data_split[of env ?s0] r s0 by auto
  have A: "?r = fetch_wallet_data env (s\<lparr>selected_device_index := Some index, status_mode := ''SYNCING...''\<rparr>)"
    by (simp add: on_device_panel_device_selected_def refresh_data_def set_mode_def)
  have ck: "current_public_key t = current_public_key s"
    using kt by (simp add: key_fields_def)
  have B: "current_public_key ?r = current_public_key s
       \<or> (\<exists>mp content. mount_point ?r = Some mp \<and> pubkey_file env mp = Some content
             \<and> current_public_key ?r = Some (strip content))"
    using t ck fetch_pubkey_stage_key[of env t] fetch_pubkey_stage_mount(1)[of env t]
    by auto
  have C: "\<not> truthy (mount_point ?r) \<or> (\<exists>mp. mount_point ?r = Some mp \<and> pubkey_file env mp = None)
       \<longrightarrow> key_fields ?r = key_fields s \<and> wallet_fields ?r = wallet_fields s"
    using t kt wt fetch_pubkey_stage_mount(1)[of env t] fetch_pubkey_stage_no_mount[of t env]
      fetch_pubkey_stage_no_file[of t _ env]
    by auto
  have D: "truthy (mount_point s) \<longrightarrow>
        current_public_key (action_unmount False s) = None
        \<and> current_balance (action_unmount False s) = 0
        \<and> current_tokens (action_unmount False s) = []
        \<and> history (action_unmount False s) = history s"
    by (simp add: action_unmount_def)
  show ?thesis
    by (rule conjI[OF A conjI[OF B conjI[OF C D]]])
qed

theorem device_selection_counterexample:
  "mount_point example_session = Some ''/mnt/a''
   \<and> mount_point (on_device_panel_device_selected example_two_device_env 1 example_session) = Some ''/mnt/b''
   \<and> selected_device_index (on_device_panel_device_selected example_two_device_env 1 example_session) = Some 1
   \<and> current_public_key (on_device_panel_device_selected example_two_device_env 1 example_session)
       = Some ''owner''
   \<and> current_balance (on_device_panel_device_selected example_two_device_env 1 example_session) = 1
   \<and> current_tokens (on_device_panel_device_selected example_two_device_env 1 example_session)
       = current_tokens example_session
   \<and> current_tokens example_session \<noteq> []
   \<and> transactions (history (on_device_panel_device_selected example_two_device_env 1 example_session))
       = transactions (history example_session)
   \<and> transactions (history example_session) \<noteq> []"
  by (simp add: example_session_def example_two_device_env_def on_device_panel_device_selected_def
      refresh_data_def fetch_wallet_data_def mount_stage_def fetch_pubkey_stage_def Let_def
      update_devices_def update_network_status_def set_mode_def update_status_bar_def)

theorem device_selection_witness:
  "mount_point (on_device_panel_device_selected example_two_device_env 1 example_session) = Some ''/mnt/b''
   \<and> pubkey_file example_two_device_env ''/mnt/b'' = None
   \<and> key_fields (on_device_panel_device_selected example_two_device_env 1 example_session)
       = key_fields example_session
   \<and> wallet_fields (on_device_panel_device_selected example_two_device_env 1 example_session)
       = wallet_fields example_session
   \<and> current_public_key (action_unmount False example_session) = None"
proof -
  have m: "mount_point (on_device_panel_device_selected example_two_device_env 1 example_session) = Some ''/mnt/b''"
    by (simp add: example_session_def example_two_device_env_def on_device_panel_device_selected_def
      refresh_data_def fetch_wallet_data_def mount_stage_def fetch_pubkey_stage_def Let_def
      update_devices_def update_network_status_def set_mode_def update_status_bar_def)
  have f: "pubkey_file example_two_device_env ''/mnt/b'' = None"
    by (simp add: example_two_device_env_def)
  have tr: "truthy (mount_point example_session)"
    by (simp add: example_session_def)
  note T = device_selection_keeps_session[of example_two_device_env 1 example_session]
  have c: "key_fields (on_device_panel_device_selected example_two_device_env 1 example_session)
       = key_fields example_session
     \<and> wallet_fields (on_device_panel_device_selected example_two_device_env 1 example_session)
       = wallet_fields example_session"
    using T[THEN conjunct2, THEN conjunct2, THEN conjunct1] m f by blast
  have u: "current_public_key (action_unmount False example_session) = None"
    using T[THEN conjunct2, THEN conjunct2, THEN conjunct2, rule_format, OF tr] by simp
  show ?thesis
    using m f c u by simp
qed

subsection \<open>The send flow\<close>

lemma show_confirm_step_gate:
  assumes "\<not> confirming p" and "confirming (show_confirm_step env p)"
  shows "\<exists>a. parse_float env (strip (amount_input p)) = Some a \<and> 0 < a
           \<and> a + fee_sol_fixed \<le> panel_balance p
           \<and> validate_address env (strip (to_address p))"
  using assms
  by (auto simp: show_confirm_step_def Let_def split: if_splits option.splits)

lemma show_confirm_step_failure_stays:
  "\<not> confirming p \<Longrightarrow> \<not> confirming (show_confirm_step env p) \<Longrightarrow>
     to_address (show_confirm_step env p) = to_address p
     \<and> amount_input (show_confirm_step env p) = amount_input p
     \<and> (\<exists>msg. review_box (show_confirm_step env p) = Review_Error msg)"
  by (auto simp: show_confirm_step_def Let_def split: if_splits option.splits)

lemma do_send_starts:
  "fst (do_send env s to_addr amount password) \<noteq> []"
  by (simp add: do_send_def Let_def split: option.splits)

lemma on_send_requested_gate:
  assumes "snd (on_send_requested env s) \<noteq> []"
  shows "\<exists>a. parse_float env (strip (amount_input (send s))) = Some a
           \<and> a + fee_sol_fixed \<le> current_balance s
           \<and> validate_address env (strip (to_address (send s)))
           \<and> wallet_password (send s) \<noteq> []"
  using assms
  by (auto simp: on_send_requested_def Let_def split: if_splits option.splits prod.splits)

text \<open>
  Claim C1. The gate of \<open>_show_confirm_step\<close> admits only a positive amount with
  \<open>amount + 0.000005\<close> at most the balance, but the amount field stays editable while the
  confirmation step is shown, and the gate of \<open>on_live_send_panel_send_requested\<close>, which
  reads the field again, checks the balance bound only. The run below enters \<open>0.5\<close>, passes
  the first gate, replaces the amount by \<open>0\<close> and confirms: the worker builds a transfer of
  amount \<open>0\<close>, loads the key container and hands the transaction to the signer.
\<close>

theorem send_flow_signs_nonpositive_amount:
  "snd (send_flow example_send_env
         [Edit_To ''7xKXtg2CW87d97TXJSDpbD5jBkheTqA83TZRuJosgAsU'', Edit_Amount ''0.5'', Press_Send,
          Edit_Amount ''0'', Edit_Password ''secret'', Press_Confirm]
         example_session)
     = [[], [], [], [], [],
        [Fetch_Blockhash, Build_Transaction 0, Load_Container ''/mnt/a/wallet/keypair.json'',
         Sign_Secure ''unsigned'', Broadcast ''signed'']]
   \<and> confirming (send (fst (send_flow example_send_env
         [Edit_To ''7xKXtg2CW87d97TXJSDpbD5jBkheTqA83TZRuJosgAsU'', Edit_Amount ''0.5'', Press_Send]
         example_session)))
   \<and> parse_float example_send_env ''0'' = Some 0
   \<and> \<not> (0 < (0::rat))"
  by code_simp

end
